theory Spec2Isabelle
  imports Main "HOL-Library.Word"
begin

section \<open>Errors\<close>

text \<open>
  Go errors as values. The Kubernetes status errors the handler can tell apart
  (\<^verbatim>\<open>errors.IsNotFound\<close>) are constructors of their own; \<open>Errorf\<close> is an error
  built by \<^verbatim>\<open>fmt.Errorf\<close>. A nil error is \<open>None\<close> of \<open>error option\<close>.
\<close>

datatype error = NotFound | AlreadyExists | Conflict | InternalError string | Errorf string

definition IsNotFound :: "error \<Rightarrow> bool" where
  "IsNotFound e = (e = NotFound)"

section \<open>Data model\<close>

text \<open>
  A Go slice that may be nil: \<open>None\<close> is the nil slice, \<open>Some xs\<close> a non-nil slice
  (\<open>Some []\<close> is the empty literal \<^verbatim>\<open>[]T{}\<close>). \<^verbatim>\<open>append\<close> accepts both and never
  returns nil when it adds an element.
\<close>

type_synonym 'a slice = "'a list option"

definition elems :: "'a slice \<Rightarrow> 'a list" where
  "elems s = (case s of None \<Rightarrow> [] | Some xs \<Rightarrow> xs)"

definition append_slice :: "'a slice \<Rightarrow> 'a \<Rightarrow> 'a slice" where
  "append_slice s x = Some (elems s @ [x])"

text \<open>
  Modelled from the spec: the condition ledger of section 3 and 4.1 (the record types
  are declared in the operator's API package, which is not under src/). A condition is
  a type, a boolean status and a last-transition timestamp; a ledger holds at most one
  condition per type; \<open>getCondition\<close> looks a type up, \<open>setCondition\<close> is an upsert
  by type that leaves the other conditions alone.
\<close>

datatype ConditionType = AlertFiring | AlertResolved | NotificationSent

record Condition =
  cond_type :: ConditionType
  cond_status :: bool
  lastTransitionTime :: int

fun getCondition :: "Condition list \<Rightarrow> ConditionType \<Rightarrow> Condition option" where
  "getCondition [] t = None"
| "getCondition (c # cs) t = (if cond_type c = t then Some c else getCondition cs t)"

fun setCondition :: "Condition list \<Rightarrow> ConditionType \<Rightarrow> bool \<Rightarrow> int \<Rightarrow> Condition list" where
  "setCondition [] t b ts = [\<lparr>cond_type = t, cond_status = b, lastTransitionTime = ts\<rparr>]"
| "setCondition (c # cs) t b ts =
     (if cond_type c = t then c\<lparr>cond_status := b, lastTransitionTime := ts\<rparr> # cs
      else c # setCondition cs t b ts)"

text \<open>
  Modelled from the spec: the per-hosted-cluster item of the fleet record (section 3):
  the hosted-cluster id, its own send counter and its own condition set.
\<close>

record NotificationRecordItem =
  HostedClusterID :: string
  ServiceLogSentCount :: nat
  Conditions :: "Condition list"

text \<open>
  The fields of \<^verbatim>\<open>NotificationRecordByName\<close> are the ones the composite literal of
  \<^verbatim>\<open>addNotificationRecordByName\<close> sets; \<^verbatim>\<open>ResendWait\<close> is an \<^verbatim>\<open>int32\<close>.
\<close>

record NotificationRecordByName =
  NotificationName :: string
  ResendWait :: "32 word"
  NotificationRecordItems :: "NotificationRecordItem slice"

record ManagedFleetNotificationRecordStatus =
  ManagementCluster :: string
  RecordByName :: "NotificationRecordByName slice"

record ManagedFleetNotificationRecord =
  meta_Name :: string
  meta_Namespace :: string
  Status :: ManagedFleetNotificationRecordStatus

text \<open>The notification template: the fields of \<^verbatim>\<open>fn\<close> that \<^verbatim>\<open>processAlert\<close> reads.\<close>

record FleetNotification =
  fn_Name :: string
  fn_Summary :: string
  fn_NotificationMessage :: string
  fn_Severity :: string
  fn_LogType :: string
  fn_References :: "string list"
  fn_ResendWait :: "32 word"

record ManagedFleetNotification =
  mfn_Name :: string
  Spec_FleetNotification :: FleetNotification

text \<open>
  An Alertmanager alert: its status and its label map. Reading a missing key of a Go
  map yields the empty string.
\<close>

record Alert =
  alert_Status :: string
  Labels :: "(string \<times> string) list"

definition label :: "Alert \<Rightarrow> string \<Rightarrow> string" where
  "label a k = (case map_of (Labels a) k of None \<Rightarrow> [] | Some v \<Rightarrow> v)"

definition OCMAgentNamespaceName :: string where
  "OCMAgentNamespaceName = ''openshift-ocm-agent-operator''"

text \<open>
  Modelled from the spec: the label keys (section 6); the constants are declared in a
  file of the package that is not under src/. No claim depends on their values.
\<close>

definition AMLabelTemplateName :: string where
  "AMLabelTemplateName = ''managed_notification_template''"

definition AMLabelAlertMCID :: string where
  "AMLabelAlertMCID = ''alert_mc_id''"

definition AMLabelAlertHCID :: string where
  "AMLabelAlertHCID = ''alert_hc_id''"

section \<open>The in-memory record and the pointers into it\<close>

text \<open>
  \<^verbatim>\<open>processAlert\<close> works on one record object (\<^verbatim>\<open>mfnr\<close>) and on pointers to
  \<^verbatim>\<open>NotificationRecordByName\<close> values. Such a pointer has two possible targets: an
  element of the record's own status slice (\<open>InStatus i\<close>), or the local variable
  \<^verbatim>\<open>nfrbn\<close> of \<^verbatim>\<open>addNotificationRecordByName\<close>, which escapes through \<^verbatim>\<open>&nfrbn\<close>
  (\<open>Escaped\<close>). \<^verbatim>\<open>append(slice, nfrbn)\<close> stores a copy of the struct value, so the
  two targets are different cells.
\<close>

datatype nfr_ptr = InStatus nat | Escaped

record memory =
  mfnr :: ManagedFleetNotificationRecord
  nfrbn :: "NotificationRecordByName option"

definition byName :: "ManagedFleetNotificationRecord \<Rightarrow> NotificationRecordByName list" where
  "byName m = elems (RecordByName (Status m))"

definition deref :: "memory \<Rightarrow> nfr_ptr \<Rightarrow> NotificationRecordByName option" where
  "deref mem p =
     (case p of
        Escaped \<Rightarrow> nfrbn mem
      | InStatus i \<Rightarrow> (if i < length (byName (mfnr mem)) then Some (byName (mfnr mem) ! i) else None))"

definition assign :: "memory \<Rightarrow> nfr_ptr \<Rightarrow> NotificationRecordByName \<Rightarrow> memory" where
  "assign mem p v =
     (case p of
        Escaped \<Rightarrow> mem\<lparr>nfrbn := Some v\<rparr>
      | InStatus i \<Rightarrow>
          mem\<lparr>mfnr := (mfnr mem)\<lparr>Status := (Status (mfnr mem))
                 \<lparr>RecordByName := Some ((byName (mfnr mem))[i := v])\<rparr>\<rparr>\<rparr>)"

section \<open>The record's methods\<close>

fun find_index_of :: "('a \<Rightarrow> bool) \<Rightarrow> 'a list \<Rightarrow> nat option" where
  "find_index_of P [] = None"
| "find_index_of P (x # xs) =
     (if P x then Some 0 else (case find_index_of P xs of None \<Rightarrow> None | Some i \<Rightarrow> Some (Suc i)))"

text \<open>
  Modelled from the spec: the resend policy \<open>canSend\<close> of section 4.3 (the method
  \<^verbatim>\<open>CanBeSent\<close> is declared in the operator's API package, not under src/). The
  arguments the spec leaves implicit are explicit here: whether a resolved text is
  configured, and the current time.
\<close>

definition canSend :: "Condition list \<Rightarrow> bool \<Rightarrow> int \<Rightarrow> bool \<Rightarrow> int \<Rightarrow> bool" where
  "canSend ledger isFiring resendWait resolvedConfigured now =
     (if isFiring then
        (case getCondition ledger NotificationSent of
           None \<Rightarrow> True
         | Some c \<Rightarrow> now - lastTransitionTime c \<ge> resendWait)
      else resolvedConfigured \<and>
        (case getCondition ledger AlertFiring of None \<Rightarrow> False | Some c \<Rightarrow> cond_status c))"

text \<open>
  Modelled from the spec: the locate operations of section 4.4, step 3 (methods of the
  operator's API package, not under src/). An item is scoped to the triple of
  management cluster, notification name and hosted cluster (section 3), so a lookup
  fails when the record belongs to another management cluster, when no entry has the
  name, or when the entry has no item for the hosted cluster. The entry is returned as
  a pointer into the record's own slice.
\<close>

definition GetNotificationRecordByName ::
  "ManagedFleetNotificationRecord \<Rightarrow> string \<Rightarrow> string \<Rightarrow> error + nfr_ptr" where
  "GetNotificationRecordByName m mcID name =
     (if ManagementCluster (Status m) \<noteq> mcID then Inl (Errorf ''management cluster not matching'')
      else (case find_index_of (\<lambda>n. NotificationName n = name) (byName m) of
              None \<Rightarrow> Inl (Errorf ''notification record not found'')
            | Some i \<Rightarrow> Inr (InStatus i)))"

definition GetNotificationRecordItem ::
  "ManagedFleetNotificationRecord \<Rightarrow> string \<Rightarrow> string \<Rightarrow> string \<Rightarrow> error + NotificationRecordItem" where
  "GetNotificationRecordItem m mcID name hcID =
     (case GetNotificationRecordByName m mcID name of
        Inl e \<Rightarrow> Inl e
      | Inr p \<Rightarrow>
          (case deref \<lparr>mfnr = m, nfrbn = None\<rparr> p of
             None \<Rightarrow> Inl (Errorf ''notification record not found'')
           | Some n \<Rightarrow>
               (case find_index_of (\<lambda>it. HostedClusterID it = hcID) (elems (NotificationRecordItems n)) of
                  None \<Rightarrow> Inl (Errorf ''notification record item not found'')
                | Some j \<Rightarrow> Inr (elems (NotificationRecordItems n) ! j))))"

text \<open>
  Modelled from the spec: \<^verbatim>\<open>CanBeSent\<close> locates the item of the triple and applies the
  resend policy to its ledger. The fleet handler deals with firing alerts only and its
  template has no resolved text, so the policy is asked for a firing alert.
\<close>

definition CanBeSent ::
  "ManagedFleetNotificationRecord \<Rightarrow> int \<Rightarrow> string \<Rightarrow> string \<Rightarrow> string \<Rightarrow> bool \<times> error option" where
  "CanBeSent m now mcID name hcID =
     (case GetNotificationRecordByName m mcID name of
        Inl e \<Rightarrow> (False, Some e)
      | Inr p \<Rightarrow>
          (case deref \<lparr>mfnr = m, nfrbn = None\<rparr> p of
             None \<Rightarrow> (False, Some (Errorf ''notification record not found''))
           | Some n \<Rightarrow>
               (case GetNotificationRecordItem m mcID name hcID of
                  Inl e \<Rightarrow> (False, Some e)
                | Inr it \<Rightarrow> (canSend (Conditions it) True (sint (ResendWait n)) False now, None))))"

text \<open>
  Modelled from the spec: the ledger update of section 4.4, step 6, for a firing
  alert: AlertFiring is set to true, AlertResolved to false, NotificationSent to true,
  all with the current time, and the send counter is incremented. The method gets the
  notification name and the hosted cluster only, and fails when it finds no such item.
\<close>

definition sentItem :: "int \<Rightarrow> NotificationRecordItem \<Rightarrow> NotificationRecordItem" where
  "sentItem now it =
     it\<lparr>ServiceLogSentCount := ServiceLogSentCount it + 1,
        Conditions :=
          setCondition (setCondition (setCondition (Conditions it) AlertFiring True now)
            AlertResolved False now) NotificationSent True now\<rparr>"

definition UpdateNotificationRecordItem ::
  "ManagedFleetNotificationRecord \<Rightarrow> int \<Rightarrow> string \<Rightarrow> string \<Rightarrow>
     (NotificationRecordItem option \<times> error option) \<times> ManagedFleetNotificationRecord" where
  "UpdateNotificationRecordItem m now name hcID =
     (case find_index_of (\<lambda>n. NotificationName n = name) (byName m) of
        None \<Rightarrow> ((None, Some (Errorf ''notification record not found'')), m)
      | Some i \<Rightarrow>
          (let n = byName m ! i; its = elems (NotificationRecordItems n)
           in case find_index_of (\<lambda>it. HostedClusterID it = hcID) its of
                None \<Rightarrow> ((None, Some (Errorf ''notification record item not found'')), m)
              | Some j \<Rightarrow>
                  (let it' = sentItem now (its ! j)
                   in ((Some it', None),
                       m\<lparr>Status := (Status m)\<lparr>RecordByName :=
                           Some ((byName m)[i := n\<lparr>NotificationRecordItems := Some (its[j := it'])\<rparr>])\<rparr>\<rparr>))))"

section \<open>Collaborators, effects and the trace\<close>

text \<open>
  The handler owns a Kubernetes client and an OCM client. Both are parameters: each
  call takes the state of the world and returns its result with the new world. The
  client's \<^verbatim>\<open>Get\<close> is used at two object types, so it is two functions here. A
  successful \<^verbatim>\<open>Get\<close> or \<^verbatim>\<open>Create\<close> writes the server's object into the object
  passed in, so both return it. \<^verbatim>\<open>isValidAlert\<close>, the JSON decoder and encoder and
  the clock are parameters as well (none of them is under src/).

  \<^verbatim>\<open>AddNotificationRecordItem\<close>, a method of the record type of the operator's API
  package, is a parameter too: neither src/ nor the spec says into which value it puts
  the new item, or when it fails. It is called on the record with the hosted cluster
  and a pointer to an entry; here it gets the memory, the hosted cluster and the
  pointer, and returns its two results with the memory it leaves.
\<close>

record SendArgs =
  sa_summary :: string
  sa_activeDesc :: string
  sa_resolvedDesc :: string
  sa_clusterID :: string
  sa_severity :: string
  sa_logType :: string
  sa_references :: "string list"
  sa_isFiring :: bool

record AMReceiverResponse =
  resp_Error :: "error option"
  resp_Status :: string
  resp_Code :: nat

record AMReceiverData =
  data_Status :: string
  Alerts :: "Alert list"

datatype metric_call =
    SetRequestMetricFailure
  | SetResponseMetricFailure string
  | ResetMetricRequestFailure
  | ResetMetricResponseFailure
  | CountServiceLogSent string string

datatype event =
    EvGetTemplate "string \<times> string" "error + ManagedFleetNotification"
  | EvGetRecord "string \<times> string" "error + ManagedFleetNotificationRecord"
  | EvCreate ManagedFleetNotificationRecord "error + ManagedFleetNotificationRecord"
  | EvStatusUpdate ManagedFleetNotificationRecord "error option"
  | EvSend SendArgs "error option"
  | EvLogInfo string
  | EvLogError string
  | EvMetric metric_call

record 'w env =
  c_GetTemplate :: "string \<times> string \<Rightarrow> 'w \<Rightarrow> (error + ManagedFleetNotification) \<times> 'w"
  c_GetRecord :: "string \<times> string \<Rightarrow> 'w \<Rightarrow> (error + ManagedFleetNotificationRecord) \<times> 'w"
  c_Create :: "ManagedFleetNotificationRecord \<Rightarrow> 'w \<Rightarrow> (error + ManagedFleetNotificationRecord) \<times> 'w"
  c_StatusUpdate :: "ManagedFleetNotificationRecord \<Rightarrow> 'w \<Rightarrow> error option \<times> 'w"
  ocm_SendServiceLog :: "SendArgs \<Rightarrow> 'w \<Rightarrow> error option \<times> 'w"
  isValidAlert :: "Alert \<Rightarrow> bool \<Rightarrow> bool"
  time_Now :: "'w \<Rightarrow> int"
  json_Decode :: "string \<Rightarrow> error + AMReceiverData"
  json_Encode :: "AMReceiverResponse \<Rightarrow> error option"
  AddNotificationRecordItem ::
    "memory \<Rightarrow> string \<Rightarrow> nfr_ptr \<Rightarrow> (NotificationRecordItem option \<times> error option) \<times> memory"

record 'w state =
  world :: 'w
  trace :: "event list"

definition emit :: "event \<Rightarrow> 'w state \<Rightarrow> 'w state" where
  "emit e st = st\<lparr>trace := trace st @ [e]\<rparr>"

definition GetTemplate ::
  "'w env \<Rightarrow> string \<times> string \<Rightarrow> 'w state \<Rightarrow> (error + ManagedFleetNotification) \<times> 'w state" where
  "GetTemplate h key st =
     (case c_GetTemplate h key (world st) of
        (r, w') \<Rightarrow> (r, emit (EvGetTemplate key r) (st\<lparr>world := w'\<rparr>)))"

definition GetRecord ::
  "'w env \<Rightarrow> string \<times> string \<Rightarrow> 'w state \<Rightarrow> (error + ManagedFleetNotificationRecord) \<times> 'w state" where
  "GetRecord h key st =
     (case c_GetRecord h key (world st) of
        (r, w') \<Rightarrow> (r, emit (EvGetRecord key r) (st\<lparr>world := w'\<rparr>)))"

definition Create ::
  "'w env \<Rightarrow> ManagedFleetNotificationRecord \<Rightarrow> 'w state \<Rightarrow>
     (error + ManagedFleetNotificationRecord) \<times> 'w state" where
  "Create h m st =
     (case c_Create h m (world st) of
        (r, w') \<Rightarrow> (r, emit (EvCreate m r) (st\<lparr>world := w'\<rparr>)))"

definition StatusUpdate ::
  "'w env \<Rightarrow> ManagedFleetNotificationRecord \<Rightarrow> 'w state \<Rightarrow> error option \<times> 'w state" where
  "StatusUpdate h m st =
     (case c_StatusUpdate h m (world st) of
        (r, w') \<Rightarrow> (r, emit (EvStatusUpdate m r) (st\<lparr>world := w'\<rparr>)))"

definition SendServiceLog ::
  "'w env \<Rightarrow> SendArgs \<Rightarrow> 'w state \<Rightarrow> error option \<times> 'w state" where
  "SendServiceLog h a st =
     (case ocm_SendServiceLog h a (world st) of
        (r, w') \<Rightarrow> (r, emit (EvSend a r) (st\<lparr>world := w'\<rparr>)))"

section \<open>The handler\<close>

text \<open>\<^verbatim>\<open>createManagedFleetNotificationRecord\<close> (lines 212-228).\<close>

definition createManagedFleetNotificationRecord ::
  "'w env \<Rightarrow> string \<Rightarrow> 'w state \<Rightarrow> (error + ManagedFleetNotificationRecord) \<times> 'w state" where
  "createManagedFleetNotificationRecord h mcID st =
     (let m = \<lparr>meta_Name = mcID, meta_Namespace = OCMAgentNamespaceName,
               Status = \<lparr>ManagementCluster = mcID, RecordByName = None\<rparr>\<rparr>
      in case Create h m st of
           (Inl err, st') \<Rightarrow> (Inl err, st')
         | (Inr m', st') \<Rightarrow> (Inr m', st'))"

text \<open>
  \<^verbatim>\<open>addNotificationRecordByName\<close> (lines 231-240). The value \<^verbatim>\<open>nfrbn\<close> is appended to
  the record's slice (a copy), then \<^verbatim>\<open>AddNotificationRecordItem\<close> gets the address of
  the local variable, which is also what the function returns.
\<close>

definition addNotificationRecordByName ::
  "'w env \<Rightarrow> string \<Rightarrow> 32 word \<Rightarrow> string \<Rightarrow> memory \<Rightarrow> (nfr_ptr \<times> error option) \<times> memory" where
  "addNotificationRecordByName h name rswait hcID mem =
     (let v = \<lparr>NotificationName = name, ResendWait = rswait, NotificationRecordItems = None\<rparr>;
          mem1 = mem\<lparr>nfrbn := Some v,
                     mfnr := (mfnr mem)\<lparr>Status := (Status (mfnr mem))
                       \<lparr>RecordByName := append_slice (RecordByName (Status (mfnr mem))) v\<rparr>\<rparr>\<rparr>
      in case AddNotificationRecordItem h mem1 hcID Escaped of
           ((_, err), mem2) \<Rightarrow> ((Escaped, err), mem2))"

text \<open>Lines 113-130 of \<^verbatim>\<open>processAlert\<close>: fetch the record, or create it when not found.\<close>

definition fetchRecord ::
  "'w env \<Rightarrow> string \<Rightarrow> 'w state \<Rightarrow> (error + ManagedFleetNotificationRecord) \<times> 'w state" where
  "fetchRecord h mcID st =
     (case GetRecord h (OCMAgentNamespaceName, mcID) st of
        (Inr m, st1) \<Rightarrow> (Inr m, st1)
      | (Inl err, st1) \<Rightarrow>
          (if \<not> IsNotFound err then
             (Inl (Errorf (''unable to fetch managedFleetNotificationRecord for '' @ mcID)),
              emit (EvLogError ''unable to fetch managedFleetNotificationRecord'') st1)
           else
             (case createManagedFleetNotificationRecord h mcID st1 of
                (Inl err', st2) \<Rightarrow>
                  (Inl err', emit (EvLogError ''unable to create managedFleetNotificationRecord'') st2)
              | (Inr m, st2) \<Rightarrow> (Inr m, st2))))"

text \<open>Lines 132-146: a record with no status gets an initial one, written at once.\<close>

definition ensureInitialStatus ::
  "'w env \<Rightarrow> string \<Rightarrow> ManagedFleetNotificationRecord \<Rightarrow> 'w state \<Rightarrow>
     error option \<times> ManagedFleetNotificationRecord \<times> 'w state" where
  "ensureInitialStatus h mcID m st =
     (if ManagementCluster (Status m) = [] then
        (let m' = m\<lparr>Status := (Status m)\<lparr>ManagementCluster := mcID, RecordByName := Some []\<rparr>\<rparr>
         in case StatusUpdate h m' st of
              (Some err, st1) \<Rightarrow>
                (Some err, m',
                 emit (EvLogError ''unable to set initial managedFleetNotificationRecord status'') st1)
            | (None, st1) \<Rightarrow> (None, m', st1))
      else (None, m, st))"

text \<open>
  Lines 148-166: locate the entry of the notification name, adding one when the lookup
  fails; then locate the item of the hosted cluster in the record, adding one through
  the entry pointer when that lookup fails.
\<close>

definition locateRecordItem ::
  "'w env \<Rightarrow> string \<Rightarrow> FleetNotification \<Rightarrow> string \<Rightarrow> ManagedFleetNotificationRecord \<Rightarrow>
     error option \<times> memory" where
  "locateRecordItem h mcID fn hcID m =
     (let mem0 = \<lparr>mfnr = m, nfrbn = None\<rparr>
      in case (case GetNotificationRecordByName m mcID (fn_Name fn) of
                 Inr p \<Rightarrow> ((p, None), mem0)
               | Inl _ \<Rightarrow> addNotificationRecordByName h (fn_Name fn) (fn_ResendWait fn) hcID mem0) of
           ((_, Some err), mem1) \<Rightarrow> (Some err, mem1)
         | ((nfr, None), mem1) \<Rightarrow>
             (case GetNotificationRecordItem (mfnr mem1) mcID (fn_Name fn) hcID of
                Inr _ \<Rightarrow> (None, mem1)
              | Inl _ \<Rightarrow>
                  (case AddNotificationRecordItem h mem1 hcID nfr of
                     ((_, Some err), mem2) \<Rightarrow> (Some err, mem2)
                   | ((_, None), mem2) \<Rightarrow> (None, mem2))))"

text \<open>
  Lines 182-208: send the service log; on success update the item's ledger in the
  in-memory record and write the record's status.
\<close>

definition sendAndRecord ::
  "'w env \<Rightarrow> FleetNotification \<Rightarrow> string \<Rightarrow> ManagedFleetNotificationRecord \<Rightarrow> 'w state \<Rightarrow>
     error option \<times> ManagedFleetNotificationRecord \<times> 'w state" where
  "sendAndRecord h fn hcID m st2 =
     (case SendServiceLog h
             \<lparr>sa_summary = fn_Summary fn, sa_activeDesc = fn_NotificationMessage fn,
              sa_resolvedDesc = [], sa_clusterID = hcID, sa_severity = fn_Severity fn,
              sa_logType = fn_LogType fn, sa_references = fn_References fn, sa_isFiring = True\<rparr>
             (emit (EvLogInfo ''will send servicelog for notification'') st2) of
        (Some err, st3) \<Rightarrow>
          (Some err, m,
           emit (EvMetric (SetResponseMetricFailure ''service_logs''))
             (emit (EvLogError ''unable to send a notification'') st3))
      | (None, st3) \<Rightarrow>
          (let st4 = emit (EvMetric (CountServiceLogSent (fn_Name fn) ''firing''))
                       (emit (EvMetric ResetMetricResponseFailure) st3)
           in case UpdateNotificationRecordItem m (time_Now h (world st4)) (fn_Name fn) hcID of
                ((ri, err), m2) \<Rightarrow>
                  (if err \<noteq> None \<or> ri = None then
                     (err, m2, emit (EvLogError ''unable to update notification status in CR'') st4)
                   else
                     (case StatusUpdate h m2 st4 of
                        (Some err', st5) \<Rightarrow>
                          (Some err', m2,
                           emit (EvLogError ''unable to update notification status on cluster'') st5)
                      | (None, st5) \<Rightarrow> (None, m2, st5)))))"

text \<open>
  \<^verbatim>\<open>processAlert\<close> (lines 108-209). The Go function returns the error only; the record
  object it worked on is returned here as well (\<open>None\<close> when none was obtained), so
  that properties of the in-memory record can be stated.
\<close>

definition processAlert_mem ::
  "'w env \<Rightarrow> Alert \<Rightarrow> ManagedFleetNotification \<Rightarrow> 'w state \<Rightarrow>
     error option \<times> ManagedFleetNotificationRecord option \<times> 'w state" where
  "processAlert_mem h alert mfn st0 =
     (let fn = Spec_FleetNotification mfn;
          mcID = label alert AMLabelAlertMCID;
          hcID = label alert AMLabelAlertHCID
      in case fetchRecord h mcID st0 of
           (Inl err, st1) \<Rightarrow> (Some err, None, st1)
         | (Inr m0, st1) \<Rightarrow>
       (case ensureInitialStatus h mcID m0 st1 of
           (Some err, m1, st2) \<Rightarrow> (Some err, Some m1, st2)
         | (None, m1, st2) \<Rightarrow>
       (case locateRecordItem h mcID fn hcID m1 of
           (Some err, mem) \<Rightarrow> (Some err, Some (mfnr mem), st2)
         | (None, mem) \<Rightarrow>
       (case CanBeSent (mfnr mem) (time_Now h (world st2)) mcID (fn_Name fn) hcID of
           (_, Some err) \<Rightarrow>
             (Some err, Some (mfnr mem),
              emit (EvLogError ''unable to fetch NotificationrecordByName or NotificationRecordItem'') st2)
         | (canBeSent, None) \<Rightarrow>
             (if \<not> canBeSent then
                (None, Some (mfnr mem),
                 emit (EvLogInfo ''not sending a notification as one was already sent recently'') st2)
              else
                (case sendAndRecord h fn hcID (mfnr mem) st2 of
                   (err, m2, st3) \<Rightarrow> (err, Some m2, st3)))))))"

definition processAlert ::
  "'w env \<Rightarrow> Alert \<Rightarrow> ManagedFleetNotification \<Rightarrow> 'w state \<Rightarrow> error option \<times> 'w state" where
  "processAlert h alert mfn st =
     (case processAlert_mem h alert mfn st of (err, _, st') \<Rightarrow> (err, st'))"

text \<open>
  \<^verbatim>\<open>Alerts.Firing()\<close> of Alertmanager's template package: the alerts whose status is
  the string \<^verbatim>\<open>firing\<close>, in order.
\<close>

definition Firing :: "Alert list \<Rightarrow> Alert list" where
  "Firing as = filter (\<lambda>a. alert_Status a = ''firing'') as"

text \<open>The loop of \<^verbatim>\<open>processAMReceiver\<close> (lines 76-103) over the firing alerts.\<close>

fun processFiring :: "'w env \<Rightarrow> Alert list \<Rightarrow> 'w state \<Rightarrow> AMReceiverResponse \<times> 'w state" where
  "processFiring h [] st = (\<lparr>resp_Error = None, resp_Status = ''ok'', resp_Code = 200\<rparr>, st)"
| "processFiring h (alert # rest) st =
     (let templateName = label alert AMLabelTemplateName
      in case GetTemplate h (OCMAgentNamespaceName, templateName) st of
           (Inl err, st1) \<Rightarrow>
             (\<lparr>resp_Error = Some err,
               resp_Status = ''unable to find ManagedFleetNotification '' @ templateName,
               resp_Code = 500\<rparr>,
              emit (EvLogError ''unable to locate corresponding notification template'') st1)
         | (Inr mfn, st1) \<Rightarrow>
             (if \<not> isValidAlert h alert True then
                processFiring h rest (emit (EvLogInfo ''alert does not meet valid criteria'') st1)
              else
                (case processAlert h alert mfn st1 of
                   (Some err, st2) \<Rightarrow>
                     processFiring h rest
                       (emit (EvLogError ''a firing alert could not be successfully processed'') st2)
                 | (None, st2) \<Rightarrow> processFiring h rest st2)))"

definition processAMReceiver ::
  "'w env \<Rightarrow> AMReceiverData \<Rightarrow> 'w state \<Rightarrow> AMReceiverResponse \<times> 'w state" where
  "processAMReceiver h d st =
     processFiring h (Firing (Alerts d)) (emit (EvLogInfo ''Process alert data'') st)"

section \<open>The HTTP entry point\<close>

text \<open>
  The response writer of Go's \<^verbatim>\<open>net/http\<close>: a header map, and what has been sent.
  The first \<^verbatim>\<open>WriteHeader\<close> fixes the status code and the headers that go out; later
  calls and later changes of the header map have no effect on the response. Writing
  the body before any \<^verbatim>\<open>WriteHeader\<close> sends status 200. \<^verbatim>\<open>http.Error\<close> sets the
  plain-text content type, writes the code and then the message with a newline.
\<close>

datatype body_part = Text string | Json AMReceiverResponse

record ResponseWriter =
  w_header :: "(string \<times> string) list"
  w_status :: "nat option"
  w_sent :: "(string \<times> string) list"
  w_body :: "body_part list"

fun upsert :: "'k \<Rightarrow> 'v \<Rightarrow> ('k \<times> 'v) list \<Rightarrow> ('k \<times> 'v) list" where
  "upsert k v [] = [(k, v)]"
| "upsert k v ((k', v') # xs) = (if k' = k then (k, v) # xs else (k', v') # upsert k v xs)"

definition Header_Set :: "string \<Rightarrow> string \<Rightarrow> ResponseWriter \<Rightarrow> ResponseWriter" where
  "Header_Set k v w = w\<lparr>w_header := upsert k v (w_header w)\<rparr>"

definition Header_Del :: "string \<Rightarrow> ResponseWriter \<Rightarrow> ResponseWriter" where
  "Header_Del k w = w\<lparr>w_header := filter (\<lambda>kv. fst kv \<noteq> k) (w_header w)\<rparr>"

definition WriteHeader :: "nat \<Rightarrow> ResponseWriter \<Rightarrow> ResponseWriter" where
  "WriteHeader code w =
     (if w_status w = None then w\<lparr>w_status := Some code, w_sent := w_header w\<rparr> else w)"

definition Write :: "body_part \<Rightarrow> ResponseWriter \<Rightarrow> ResponseWriter" where
  "Write b w = (let w' = WriteHeader 200 w in w'\<lparr>w_body := w_body w' @ [b]\<rparr>)"

definition http_Error :: "ResponseWriter \<Rightarrow> string \<Rightarrow> nat \<Rightarrow> ResponseWriter" where
  "http_Error w msg code =
     Write (Text (msg @ [CHR 0x0A]))
       (WriteHeader code
         (Header_Set ''X-Content-Type-Options'' ''nosniff''
           (Header_Set ''Content-Type'' ''text/plain; charset=utf-8''
             (Header_Del ''Content-Length'' w))))"

definition new_writer :: ResponseWriter where
  "new_writer = \<lparr>w_header = [], w_status = None, w_sent = [], w_body = []\<rparr>"

record Request =
  Method :: string
  Body :: string

text \<open>
  \<^verbatim>\<open>ServeHTTP\<close> (lines 39-70). The request is a pointer: for a nil request the guard
  of line 41 is false and line 47 dereferences nil, a panic (\<open>None\<close>).
\<close>

definition ServeHTTP ::
  "'w env \<Rightarrow> ResponseWriter \<Rightarrow> Request option \<Rightarrow> 'w state \<Rightarrow> (ResponseWriter \<times> 'w state) option" where
  "ServeHTTP h w r st =
     (if r \<noteq> None \<and> Method (the r) \<noteq> ''POST'' then
        Some (http_Error w ''Method Not Allowed'' 405, st)
      else
        (case r of
           None \<Rightarrow> None
         | Some req \<Rightarrow>
             (case json_Decode h (Body req) of
                Inl err \<Rightarrow>
                  Some (http_Error w ''Bad request body'' 400,
                        emit (EvMetric SetRequestMetricFailure)
                          (emit (EvLogError ''Failed to process request body'') st))
              | Inr alertData \<Rightarrow>
                  (case processAMReceiver h alertData st of
                     (response, st1) \<Rightarrow>
                       (let w1 = WriteHeader (resp_Code response)
                                   (Header_Set ''Content-Type'' ''application/json'' w)
                        in case json_Encode h response of
                             Some err \<Rightarrow>
                               Some (http_Error w1 ''Failed to write to response'' 500,
                                     emit (EvMetric SetRequestMetricFailure)
                                       (emit (EvLogError ''Failed to write to response'') st1))
                           | None \<Rightarrow>
                               Some (Write (Json response) w1,
                                     emit (EvMetric ResetMetricRequestFailure) st1))))))"

section \<open>Reading the trace\<close>

definition new_events :: "'w state \<Rightarrow> 'w state \<Rightarrow> event list" where
  "new_events st st' = drop (length (trace st)) (trace st')"

fun is_send :: "event \<Rightarrow> bool" where
  "is_send (EvSend a r) = True"
| "is_send e = False"

fun is_write :: "event \<Rightarrow> bool" where
  "is_write (EvCreate m r) = True"
| "is_write (EvStatusUpdate m r) = True"
| "is_write e = False"

fun is_fetch :: "event \<Rightarrow> bool" where
  "is_fetch (EvGetRecord k r) = True"
| "is_fetch e = False"

fun is_client_call :: "event \<Rightarrow> bool" where
  "is_client_call (EvLogInfo s) = False"
| "is_client_call (EvLogError s) = False"
| "is_client_call (EvMetric c) = False"
| "is_client_call e = True"

section \<open>A reference client\<close>

text \<open>
  A small in-memory stand-in for the two clients, used to run the handler on concrete
  inputs: templates and records are kept by name, \<^verbatim>\<open>Create\<close> refuses an existing name,
  a status update needs an existing record, and the outcomes of the send and of the
  status update can be forced to an error. With \<open>fk_status_subresource\<close> set,
  \<^verbatim>\<open>Create\<close> ignores the status of the object it is given, as an API server does for
  a resource with a status subresource, and the object comes back without a status.
\<close>

text \<open>
  The stand-in for \<^verbatim>\<open>AddNotificationRecordItem\<close> creates the item of the hosted
  cluster, with no condition and a counter of 0, in the record's entry that has the
  notification name of the entry behind the pointer, so that the item can be located
  in the record afterwards (spec 4.4, step 3). It is one possible behaviour of the
  method; the theorems hold for every behaviour unless they say otherwise.
\<close>

definition ref_AddNotificationRecordItem ::
  "memory \<Rightarrow> string \<Rightarrow> nfr_ptr \<Rightarrow> (NotificationRecordItem option \<times> error option) \<times> memory" where
  "ref_AddNotificationRecordItem mem hcID p =
     (let nri = \<lparr>HostedClusterID = hcID, ServiceLogSentCount = 0, Conditions = []\<rparr>
      in case deref mem p of
           None \<Rightarrow> ((None, Some (Errorf ''no notification record'')), mem)
         | Some n \<Rightarrow>
             (case find_index_of (\<lambda>e. NotificationName e = NotificationName n) (byName (mfnr mem)) of
                None \<Rightarrow> ((None, Some (Errorf ''notification record not found'')), mem)
              | Some i \<Rightarrow>
                  ((Some nri, None),
                   assign mem (InStatus i)
                     ((byName (mfnr mem) ! i)
                        \<lparr>NotificationRecordItems :=
                           append_slice (NotificationRecordItems (byName (mfnr mem) ! i)) nri\<rparr>))))"

record fake =
  fk_templates :: "(string \<times> ManagedFleetNotification) list"
  fk_records :: "(string \<times> ManagedFleetNotificationRecord) list"
  fk_send :: "error option"
  fk_update :: "error option"
  fk_now :: int
  fk_status_subresource :: bool

definition fake_env :: "fake env" where
  "fake_env =
     \<lparr>c_GetTemplate = (\<lambda>key w.
        (case map_of (fk_templates w) (snd key) of None \<Rightarrow> Inl NotFound | Some t \<Rightarrow> Inr t, w)),
      c_GetRecord = (\<lambda>key w.
        (case map_of (fk_records w) (snd key) of None \<Rightarrow> Inl NotFound | Some m \<Rightarrow> Inr m, w)),
      c_Create = (\<lambda>m w.
        (case map_of (fk_records w) (meta_Name m) of
           Some _ \<Rightarrow> (Inl AlreadyExists, w)
         | None \<Rightarrow>
             (let m' = (if fk_status_subresource w
                        then m\<lparr>Status := \<lparr>ManagementCluster = [], RecordByName = None\<rparr>\<rparr>
                        else m)
              in (Inr m', w\<lparr>fk_records := upsert (meta_Name m) m' (fk_records w)\<rparr>)))),
      c_StatusUpdate = (\<lambda>m w.
        (case fk_update w of
           Some e \<Rightarrow> (Some e, w)
         | None \<Rightarrow>
             (case map_of (fk_records w) (meta_Name m) of
                None \<Rightarrow> (Some NotFound, w)
              | Some _ \<Rightarrow> (None, w\<lparr>fk_records := upsert (meta_Name m) m (fk_records w)\<rparr>)))),
      ocm_SendServiceLog = (\<lambda>a w. (fk_send w, w)),
      isValidAlert = (\<lambda>a fleet. map_of (Labels a) ''send_managed_notification'' = Some ''true''),
      time_Now = fk_now,
      json_Decode = (\<lambda>b. if b = [] then Inl (Errorf ''EOF'') else Inr \<lparr>data_Status = b, Alerts = []\<rparr>),
      json_Encode = (\<lambda>r. None),
      AddNotificationRecordItem = ref_AddNotificationRecordItem\<rparr>"

definition ex_template :: ManagedFleetNotification where
  "ex_template =
     \<lparr>mfn_Name = ''t1'',
      Spec_FleetNotification =
        \<lparr>fn_Name = ''t1'', fn_Summary = ''summary'', fn_NotificationMessage = ''message'',
         fn_Severity = ''Info'', fn_LogType = ''log'', fn_References = [], fn_ResendWait = 24\<rparr>\<rparr>"

definition ex_alert :: "string \<Rightarrow> string \<Rightarrow> Alert" where
  "ex_alert status tname =
     \<lparr>alert_Status = status,
      Labels = [(''alertname'', ''TestAlertName''), (''managed_notification_template'', tname),
                (''send_managed_notification'', ''true''), (''alert_mc_id'', ''mc''),
                (''alert_hc_id'', ''hc'')]\<rparr>"

definition ex_item :: "nat \<Rightarrow> Condition list \<Rightarrow> NotificationRecordItem" where
  "ex_item n cs = \<lparr>HostedClusterID = ''hc'', ServiceLogSentCount = n, Conditions = cs\<rparr>"

definition ex_sent :: "int \<Rightarrow> Condition" where
  "ex_sent t = \<lparr>cond_type = NotificationSent, cond_status = True, lastTransitionTime = t\<rparr>"

definition ex_record :: "NotificationRecordItem slice \<Rightarrow> ManagedFleetNotificationRecord" where
  "ex_record its =
     \<lparr>meta_Name = ''mc'', meta_Namespace = OCMAgentNamespaceName,
      Status = \<lparr>ManagementCluster = ''mc'',
                RecordByName = Some [\<lparr>NotificationName = ''t1'', ResendWait = 24,
                                      NotificationRecordItems = its\<rparr>]\<rparr>\<rparr>"

definition ex_state ::
  "(string \<times> ManagedFleetNotificationRecord) list \<Rightarrow> error option \<Rightarrow> error option \<Rightarrow> fake state" where
  "ex_state rs se ue =
     \<lparr>world = \<lparr>fk_templates = [(''t1'', ex_template)], fk_records = rs, fk_send = se,
               fk_update = ue, fk_now = 100, fk_status_subresource = False\<rparr>,
      trace = []\<rparr>"

definition ex_subresource :: "fake state \<Rightarrow> fake state" where
  "ex_subresource st = st\<lparr>world := (world st)\<lparr>fk_status_subresource := True\<rparr>\<rparr>"

definition ex_batch :: "Alert list \<Rightarrow> AMReceiverData" where
  "ex_batch as = \<lparr>data_Status = ''firing'', Alerts = as\<rparr>"


section \<open>Reading the record\<close>

text \<open>
  The first entry of a notification name, the first item of a hosted cluster in an
  entry, and the send counter of an item (0 when there is no such item): what a claim
  about an item of the record reads.
\<close>

definition lookupEntry :: "ManagedFleetNotificationRecord \<Rightarrow> string \<Rightarrow> NotificationRecordByName option" where
  "lookupEntry m name =
     (case find_index_of (\<lambda>n. NotificationName n = name) (byName m) of
        None \<Rightarrow> None
      | Some i \<Rightarrow> Some (byName m ! i))"

definition lookupIn :: "NotificationRecordByName \<Rightarrow> string \<Rightarrow> NotificationRecordItem option" where
  "lookupIn n hc =
     (case find_index_of (\<lambda>it. HostedClusterID it = hc) (elems (NotificationRecordItems n)) of
        None \<Rightarrow> None
      | Some j \<Rightarrow> Some (elems (NotificationRecordItems n) ! j))"

definition lookupItem :: "ManagedFleetNotificationRecord \<Rightarrow> string \<Rightarrow> string \<Rightarrow> NotificationRecordItem option" where
  "lookupItem m name hc = (case lookupEntry m name of None \<Rightarrow> None | Some n \<Rightarrow> lookupIn n hc)"

definition sentCount :: "ManagedFleetNotificationRecord \<Rightarrow> string \<Rightarrow> string \<Rightarrow> nat" where
  "sentCount m name hc = (case lookupItem m name hc of None \<Rightarrow> 0 | Some it \<Rightarrow> ServiceLogSentCount it)"

text \<open>Shorthands for the values the handler builds.\<close>

abbreviation "recKey mcID \<equiv> (OCMAgentNamespaceName, mcID)"
abbreviation "initObj mcID \<equiv> \<lparr>meta_Name = mcID, meta_Namespace = OCMAgentNamespaceName,
               Status = \<lparr>ManagementCluster = mcID, RecordByName = None\<rparr>\<rparr>"

abbreviation "initStatus mcID m \<equiv> m\<lparr>Status := (Status m)\<lparr>ManagementCluster := mcID, RecordByName := Some []\<rparr>\<rparr>"

abbreviation "sendArgs fn hcID \<equiv> \<lparr>sa_summary = fn_Summary fn, sa_activeDesc = fn_NotificationMessage fn,
              sa_resolvedDesc = [], sa_clusterID = hcID, sa_severity = fn_Severity fn,
              sa_logType = fn_LogType fn, sa_references = fn_References fn, sa_isFiring = True\<rparr>"

abbreviation "blankItem hcID \<equiv> \<lparr>HostedClusterID = hcID, ServiceLogSentCount = 0, Conditions = []\<rparr>"

text \<open>
  A send for a firing alert with no resolved text; a failed template lookup; any
  template lookup.
\<close>

fun firing_send :: "event \<Rightarrow> bool" where
  "firing_send (EvSend a r) = (sa_isFiring a \<and> sa_resolvedDesc a = [])"
| "firing_send e = True"

fun template_failure :: "event \<Rightarrow> bool" where
  "template_failure (EvGetTemplate k (Inl e)) = True"
| "template_failure e = False"

fun is_template_call :: "event \<Rightarrow> bool" where
  "is_template_call (EvGetTemplate k r) = True"
| "is_template_call e = False"



section \<open>Basic facts\<close>

lemma trace_emit [simp]: "trace (emit e st) = trace st @ [e]"
  by (simp add: emit_def)

lemma world_emit [simp]: "world (emit e st) = world st"
  by (simp add: emit_def)

lemma new_events_append [simp]: "trace st' = trace st @ evs \<Longrightarrow> new_events st st' = evs"
  by (simp add: new_events_def)

section \<open>The paths of each phase\<close>

lemmas client_defs = GetRecord_def Create_def StatusUpdate_def SendServiceLog_def GetTemplate_def

lemma fetchRecord_cases:
  assumes "fetchRecord h mcID st = (r, st1)"
  obtains
    (found) m where "r = Inr m"
      "c_GetRecord h (recKey mcID) (world st) = (Inr m, world st1)"
      "trace st1 = trace st @ [EvGetRecord (recKey mcID) (Inr m)]"
  | (get_failed) err where "\<not> IsNotFound err"
      "r = Inl (Errorf (''unable to fetch managedFleetNotificationRecord for '' @ mcID))"
      "c_GetRecord h (recKey mcID) (world st) = (Inl err, world st1)"
      "trace st1 = trace st @ [EvGetRecord (recKey mcID) (Inl err),
         EvLogError ''unable to fetch managedFleetNotificationRecord'']"
  | (create_failed) err err' w where "IsNotFound err" "r = Inl err'"
      "c_GetRecord h (recKey mcID) (world st) = (Inl err, w)"
      "c_Create h (initObj mcID) w = (Inl err', world st1)"
      "trace st1 = trace st @ [EvGetRecord (recKey mcID) (Inl err), EvCreate (initObj mcID) (Inl err'),
         EvLogError ''unable to create managedFleetNotificationRecord'']"
  | (created) err m w where "IsNotFound err" "r = Inr m"
      "c_GetRecord h (recKey mcID) (world st) = (Inl err, w)"
      "c_Create h (initObj mcID) w = (Inr m, world st1)"
      "trace st1 = trace st @ [EvGetRecord (recKey mcID) (Inl err), EvCreate (initObj mcID) (Inr m)]"
  using assms
  by (auto simp: fetchRecord_def createManagedFleetNotificationRecord_def client_defs Let_def
      split: prod.splits sum.splits if_splits)

lemma ensureInitialStatus_cases:
  assumes "ensureInitialStatus h mcID m st = (r, m1, st1)"
  obtains
    (has_status) "ManagementCluster (Status m) \<noteq> []" "r = None" "m1 = m" "st1 = st"
  | (init_failed) err where "ManagementCluster (Status m) = []" "r = Some err" "m1 = initStatus mcID m"
      "c_StatusUpdate h (initStatus mcID m) (world st) = (Some err, world st1)"
      "trace st1 = trace st @ [EvStatusUpdate (initStatus mcID m) (Some err),
         EvLogError ''unable to set initial managedFleetNotificationRecord status'']"
  | (init_written) "ManagementCluster (Status m) = []" "r = None" "m1 = initStatus mcID m"
      "c_StatusUpdate h (initStatus mcID m) (world st) = (None, world st1)"
      "trace st1 = trace st @ [EvStatusUpdate (initStatus mcID m) None]"
  using assms
  by (auto simp: ensureInitialStatus_def client_defs Let_def
      split: prod.splits option.splits if_splits)

lemma sendAndRecord_cases:
  assumes "sendAndRecord h fn hcID m st = (r, m', st')"
  obtains
    (send_failed) err where "r = Some err" "m' = m"
      "ocm_SendServiceLog h (sendArgs fn hcID) (world st) = (Some err, world st')"
      "trace st' = trace st @ [EvLogInfo ''will send servicelog for notification'',
         EvSend (sendArgs fn hcID) (Some err), EvLogError ''unable to send a notification'',
         EvMetric (SetResponseMetricFailure ''service_logs'')]"
  | (ledger_failed) ri err where "err \<noteq> None \<or> ri = None" "r = err"
      "ocm_SendServiceLog h (sendArgs fn hcID) (world st) = (None, world st')"
      "UpdateNotificationRecordItem m (time_Now h (world st')) (fn_Name fn) hcID = ((ri, err), m')"
      "trace st' = trace st @ [EvLogInfo ''will send servicelog for notification'',
         EvSend (sendArgs fn hcID) None, EvMetric ResetMetricResponseFailure,
         EvMetric (CountServiceLogSent (fn_Name fn) ''firing''),
         EvLogError ''unable to update notification status in CR'']"
  | (persist_failed) w it err where "r = Some err"
      "ocm_SendServiceLog h (sendArgs fn hcID) (world st) = (None, w)"
      "UpdateNotificationRecordItem m (time_Now h w) (fn_Name fn) hcID = ((Some it, None), m')"
      "c_StatusUpdate h m' w = (Some err, world st')"
      "trace st' = trace st @ [EvLogInfo ''will send servicelog for notification'',
         EvSend (sendArgs fn hcID) None, EvMetric ResetMetricResponseFailure,
         EvMetric (CountServiceLogSent (fn_Name fn) ''firing''),
         EvStatusUpdate m' (Some err),
         EvLogError ''unable to update notification status on cluster'']"
  | (recorded) w it where "r = None"
      "ocm_SendServiceLog h (sendArgs fn hcID) (world st) = (None, w)"
      "UpdateNotificationRecordItem m (time_Now h w) (fn_Name fn) hcID = ((Some it, None), m')"
      "c_StatusUpdate h m' w = (None, world st')"
      "trace st' = trace st @ [EvLogInfo ''will send servicelog for notification'',
         EvSend (sendArgs fn hcID) None, EvMetric ResetMetricResponseFailure,
         EvMetric (CountServiceLogSent (fn_Name fn) ''firing''),
         EvStatusUpdate m' None]"
  using assms
  apply (auto simp: sendAndRecord_def client_defs Let_def
      split: prod.splits option.splits if_splits)
   apply blast+
  done


lemma processAlert_mem_cases:
  assumes "processAlert_mem h alert mfn st = (res, mo, st')"
  obtains
    (fetch_failed) err where "res = Some err" "mo = None"
      "fetchRecord h (label alert AMLabelAlertMCID) st = (Inl err, st')"
  | (init_failed) m0 st1 err m1 where "res = Some err" "mo = Some m1"
      "fetchRecord h (label alert AMLabelAlertMCID) st = (Inr m0, st1)"
      "ensureInitialStatus h (label alert AMLabelAlertMCID) m0 st1 = (Some err, m1, st')"
  | (locate_failed) m0 st1 m1 err mem where "res = Some err" "mo = Some (mfnr mem)"
      "fetchRecord h (label alert AMLabelAlertMCID) st = (Inr m0, st1)"
      "ensureInitialStatus h (label alert AMLabelAlertMCID) m0 st1 = (None, m1, st')"
      "locateRecordItem h (label alert AMLabelAlertMCID) (Spec_FleetNotification mfn)
         (label alert AMLabelAlertHCID) m1 = (Some err, mem)"
  | (policy_failed) m0 st1 m1 st2 mem b err where "res = Some err" "mo = Some (mfnr mem)"
      "fetchRecord h (label alert AMLabelAlertMCID) st = (Inr m0, st1)"
      "ensureInitialStatus h (label alert AMLabelAlertMCID) m0 st1 = (None, m1, st2)"
      "locateRecordItem h (label alert AMLabelAlertMCID) (Spec_FleetNotification mfn)
         (label alert AMLabelAlertHCID) m1 = (None, mem)"
      "CanBeSent (mfnr mem) (time_Now h (world st2)) (label alert AMLabelAlertMCID)
         (fn_Name (Spec_FleetNotification mfn)) (label alert AMLabelAlertHCID) = (b, Some err)"
      "world st' = world st2"
      "trace st' = trace st2 @
         [EvLogError ''unable to fetch NotificationrecordByName or NotificationRecordItem'']"
  | (not_due) m0 st1 m1 st2 mem where "res = None" "mo = Some (mfnr mem)"
      "fetchRecord h (label alert AMLabelAlertMCID) st = (Inr m0, st1)"
      "ensureInitialStatus h (label alert AMLabelAlertMCID) m0 st1 = (None, m1, st2)"
      "locateRecordItem h (label alert AMLabelAlertMCID) (Spec_FleetNotification mfn)
         (label alert AMLabelAlertHCID) m1 = (None, mem)"
      "CanBeSent (mfnr mem) (time_Now h (world st2)) (label alert AMLabelAlertMCID)
         (fn_Name (Spec_FleetNotification mfn)) (label alert AMLabelAlertHCID) = (False, None)"
      "world st' = world st2"
      "trace st' = trace st2 @
         [EvLogInfo ''not sending a notification as one was already sent recently'']"
  | (due) m0 st1 m1 st2 mem m2 where "mo = Some m2"
      "fetchRecord h (label alert AMLabelAlertMCID) st = (Inr m0, st1)"
      "ensureInitialStatus h (label alert AMLabelAlertMCID) m0 st1 = (None, m1, st2)"
      "locateRecordItem h (label alert AMLabelAlertMCID) (Spec_FleetNotification mfn)
         (label alert AMLabelAlertHCID) m1 = (None, mem)"
      "CanBeSent (mfnr mem) (time_Now h (world st2)) (label alert AMLabelAlertMCID)
         (fn_Name (Spec_FleetNotification mfn)) (label alert AMLabelAlertHCID) = (True, None)"
      "sendAndRecord h (Spec_FleetNotification mfn) (label alert AMLabelAlertHCID) (mfnr mem) st2
         = (res, m2, st')"
  using assms
  by (auto simp: processAlert_mem_def Let_def split: prod.splits sum.splits option.splits if_splits)

lemma processAlert_eq: "processAlert h alert mfn st = (res, st') \<longleftrightarrow>
   (\<exists>mo. processAlert_mem h alert mfn st = (res, mo, st'))"
  by (auto simp: processAlert_def split: prod.splits)

section \<open>Lookups in the record\<close>

lemma find_index_of_Some:
  "find_index_of P xs = Some i \<Longrightarrow> i < length xs \<and> P (xs ! i)"
  by (induction xs arbitrary: i) (auto split: if_splits option.splits)

lemma find_index_of_append:
  "find_index_of P (xs @ ys) =
     (case find_index_of P xs of
        Some i \<Rightarrow> Some i
      | None \<Rightarrow> (case find_index_of P ys of None \<Rightarrow> None | Some j \<Rightarrow> Some (length xs + j)))"
  by (induction xs) (auto split: option.splits)

lemma find_index_of_update:
  "i < length xs \<Longrightarrow> P v = P (xs ! i) \<Longrightarrow> find_index_of P (xs[i := v]) = find_index_of P xs"
proof (induction xs arbitrary: i)
  case Nil
  then show ?case by simp
next
  case (Cons x xs)
  show ?case
  proof (cases i)
    case 0
    with Cons.prems show ?thesis by simp
  next
    case (Suc k)
    with Cons.prems have "find_index_of P (xs[k := v]) = find_index_of P xs"
      by (intro Cons.IH) auto
    with Suc show ?thesis by simp
  qed
qed

lemma lookupEntry_append:
  "byName m' = byName m @ [v] \<Longrightarrow>
   lookupEntry m' name =
     (case lookupEntry m name of Some n \<Rightarrow> Some n
      | None \<Rightarrow> if NotificationName v = name then Some v else None)"
  by (auto simp: lookupEntry_def find_index_of_append nth_append
      dest: find_index_of_Some split: option.splits)

lemma lookupEntry_update:
  assumes "find_index_of (\<lambda>n. NotificationName n = nm) (byName m) = Some i"
    and "byName m' = (byName m)[i := v]" and "NotificationName v = nm"
  shows "lookupEntry m' name = (if name = nm then Some v else lookupEntry m name)"
proof -
  from assms(1) have i: "i < length (byName m)" "NotificationName (byName m ! i) = nm"
    by (auto dest: find_index_of_Some)
  have idx: "find_index_of (\<lambda>n. NotificationName n = x) ((byName m)[i := v]) =
             find_index_of (\<lambda>n. NotificationName n = x) (byName m)" for x
    using i assms(3) by (intro find_index_of_update) auto
  show ?thesis
  proof (cases "name = nm")
    case True
    then show ?thesis using assms(1) i by (simp add: lookupEntry_def assms(2) idx)
  next
    case False
    show ?thesis
    proof (cases "find_index_of (\<lambda>n. NotificationName n = name) (byName m)")
      case None
      then show ?thesis using False by (simp add: lookupEntry_def assms(2) idx)
    next
      case (Some k)
      then have "NotificationName (byName m ! k) = name"
        by (auto dest: find_index_of_Some)
      with i False have "k \<noteq> i" by auto
      then show ?thesis using Some False by (simp add: lookupEntry_def assms(2) idx)
    qed
  qed
qed

lemma lookupIn_append:
  "lookupIn (n\<lparr>NotificationRecordItems := Some (elems (NotificationRecordItems n) @ [x])\<rparr>) hc =
     (case lookupIn n hc of Some it \<Rightarrow> Some it
      | None \<Rightarrow> if HostedClusterID x = hc then Some x else None)"
  by (auto simp: lookupIn_def find_index_of_append nth_append elems_def
      dest: find_index_of_Some split: option.splits)

lemma lookupIn_nil [simp]:
  "lookupIn \<lparr>NotificationName = nm, ResendWait = rw, NotificationRecordItems = None\<rparr> hc = None"
  by (simp add: lookupIn_def elems_def)

lemma byName_update [simp]:
  "byName (m\<lparr>Status := (Status m)\<lparr>RecordByName := Some xs\<rparr>\<rparr>) = xs"
  by (simp add: byName_def elems_def)

lemma byName_init [simp]:
  "byName (m\<lparr>Status := (Status m)\<lparr>ManagementCluster := mc, RecordByName := Some xs\<rparr>\<rparr>) = xs"
  by (simp add: byName_def elems_def)

lemma lookupItem_empty: "byName m = [] \<Longrightarrow> lookupItem m name hc = None"
  by (simp add: lookupItem_def lookupEntry_def)

lemma GetNotificationRecordByName_Inr:
  "GetNotificationRecordByName m mcID name = Inr p \<longleftrightarrow>
     ManagementCluster (Status m) = mcID \<and>
     (\<exists>i. p = InStatus i \<and> find_index_of (\<lambda>n. NotificationName n = name) (byName m) = Some i)"
  by (auto simp: GetNotificationRecordByName_def split: option.splits)

lemma GetNotificationRecordByName_Inl:
  "GetNotificationRecordByName m mcID name = Inl e \<Longrightarrow>
     ManagementCluster (Status m) \<noteq> mcID \<or> lookupEntry m name = None"
  by (auto simp: GetNotificationRecordByName_def lookupEntry_def split: option.splits if_splits)

lemma GetNotificationRecordItem_lookup:
  "GetNotificationRecordItem m mcID name hc = Inr it \<longleftrightarrow>
     ManagementCluster (Status m) = mcID \<and> lookupItem m name hc = Some it"
  by (auto simp: GetNotificationRecordItem_def GetNotificationRecordByName_def lookupItem_def
      lookupEntry_def lookupIn_def deref_def
      dest: find_index_of_Some split: option.splits sum.splits if_splits)

lemma CanBeSent_ok:
  "CanBeSent m now mcID name hc = (b, None) \<Longrightarrow> \<exists>it. GetNotificationRecordItem m mcID name hc = Inr it"
  by (auto simp: CanBeSent_def split: sum.splits option.splits)

lemma lookupIn_update:
  assumes "find_index_of (\<lambda>it. HostedClusterID it = hcID) (elems (NotificationRecordItems n)) = Some j"
    and "HostedClusterID v = hcID"
  shows "lookupIn (n\<lparr>NotificationRecordItems := Some ((elems (NotificationRecordItems n))[j := v])\<rparr>) h =
     (if h = hcID then Some v else lookupIn n h)"
proof -
  let ?its = "elems (NotificationRecordItems n)"
  from assms(1) have j: "j < length ?its" "HostedClusterID (?its ! j) = hcID"
    by (auto dest: find_index_of_Some)
  have idx: "find_index_of (\<lambda>it. HostedClusterID it = x) (?its[j := v]) =
             find_index_of (\<lambda>it. HostedClusterID it = x) ?its" for x
    using j assms(2) by (intro find_index_of_update) auto
  show ?thesis
  proof (cases "h = hcID")
    case True
    then show ?thesis using assms(1) j by (simp add: lookupIn_def elems_def[of "Some _"] idx)
  next
    case False
    show ?thesis
    proof (cases "find_index_of (\<lambda>it. HostedClusterID it = h) ?its")
      case None
      then show ?thesis using False by (simp add: lookupIn_def elems_def[of "Some _"] idx)
    next
      case (Some k)
      then have "HostedClusterID (?its ! k) = h" by (auto dest: find_index_of_Some)
      with j False have "k \<noteq> j" by auto
      then show ?thesis using Some False by (simp add: lookupIn_def elems_def[of "Some _"] idx)
    qed
  qed
qed

lemma UpdateNotificationRecordItem_cases:
  assumes "UpdateNotificationRecordItem m now name hcID = ((ri, err), m2)"
  obtains
    (failed) e where "ri = None" "err = Some e" "m2 = m"
  | (updated) it where "ri = Some (sentItem now it)" "err = None"
      "lookupItem m name hcID = Some it"
      "\<And>n h. lookupItem m2 n h =
          (if n = name \<and> h = hcID then Some (sentItem now it) else lookupItem m n h)"
proof (cases "find_index_of (\<lambda>n. NotificationName n = name) (byName m)")
  case None
  with assms show ?thesis by (intro failed) (auto simp: UpdateNotificationRecordItem_def)
next
  case (Some i)
  let ?n = "byName m ! i"
  let ?its = "elems (NotificationRecordItems ?n)"
  from Some have nm: "NotificationName ?n = name" by (auto dest: find_index_of_Some)
  show ?thesis
  proof (cases "find_index_of (\<lambda>it. HostedClusterID it = hcID) ?its")
    case None
    with assms Some show ?thesis
      by (intro failed) (auto simp: UpdateNotificationRecordItem_def Let_def)
  next
    case j: (Some j)
    let ?it' = "sentItem now (?its ! j)"
    let ?n' = "?n\<lparr>NotificationRecordItems := Some (?its[j := ?it'])\<rparr>"
    from assms Some j have res: "ri = Some ?it'" "err = None"
      and m2: "byName m2 = (byName m)[i := ?n']"
      by (auto simp: UpdateNotificationRecordItem_def Let_def)
    from j have hc: "HostedClusterID (?its ! j) = hcID" by (auto dest: find_index_of_Some)
    then have hc': "HostedClusterID ?it' = hcID" by (simp add: sentItem_def)
    have ent: "lookupEntry m2 x = (if x = name then Some ?n' else lookupEntry m x)" for x
      by (rule lookupEntry_update[OF Some m2]) (simp add: nm)
    have old: "lookupItem m name hcID = Some (?its ! j)"
      using Some j by (simp add: lookupItem_def lookupEntry_def lookupIn_def)
    have new: "lookupItem m2 n h =
          (if n = name \<and> h = hcID then Some ?it' else lookupItem m n h)" for n h
    proof -
      have e0: "lookupEntry m name = Some ?n" using Some by (simp add: lookupEntry_def)
      show ?thesis by (simp add: lookupItem_def ent lookupIn_update[OF j hc'] e0)
    qed
    from res old new show ?thesis by (intro updated[of "?its ! j"]) auto
  qed
qed

lemma sentItem_count [simp]: "ServiceLogSentCount (sentItem now it) = ServiceLogSentCount it + 1"
  by (simp add: sentItem_def)

lemma byName_initObj [simp]: "byName (initObj mcID) = []"
  by (simp add: byName_def elems_def)



section \<open>The events of a batch\<close>

lemma processAlert_events:
  assumes "processAlert h alert mfn st = (res, st')"
  shows "\<exists>evs. trace st' = trace st @ evs \<and>
           (\<forall>e\<in>set evs. firing_send e \<and> \<not> is_template_call e)"
proof -
  from assms obtain mo where run: "processAlert_mem h alert mfn st = (res, mo, st')"
    by (auto simp: processAlert_eq)
  from run show ?thesis
    by (cases rule: processAlert_mem_cases)
      (auto elim!: fetchRecord_cases ensureInitialStatus_cases sendAndRecord_cases)
qed

lemma processFiring_events:
  "processFiring h as st = (resp, st') \<Longrightarrow>
     \<exists>evs. trace st' = trace st @ evs \<and> (\<forall>e\<in>set evs. firing_send e) \<and>
       (if \<exists>e\<in>set evs. template_failure e
        then resp_Code resp = 500 \<and> resp_Error resp \<noteq> None
        else resp = \<lparr>resp_Error = None, resp_Status = ''ok'', resp_Code = 200\<rparr>)"
proof (induction as arbitrary: st)
  case Nil
  then show ?case by auto
next
  case (Cons alert rest)
  let ?key = "(OCMAgentNamespaceName, label alert AMLabelTemplateName)"
  obtain r w1 where g: "c_GetTemplate h ?key (world st) = (r, w1)"
    by (cases "c_GetTemplate h ?key (world st)") auto
  let ?st1 = "emit (EvGetTemplate ?key r) (st\<lparr>world := w1\<rparr>)"
  have gt: "GetTemplate h ?key st = (r, ?st1)" using g by (simp add: GetTemplate_def)
  show ?case
  proof (cases r)
    case (Inl err)
    with Cons.prems gt have
      "resp_Code resp = 500" "resp_Error resp \<noteq> None"
      "trace st' = trace st @ [EvGetTemplate ?key (Inl err),
          EvLogError ''unable to locate corresponding notification template'']"
      by (auto simp: Let_def)
    then show ?thesis
      by (intro exI[of _ "[EvGetTemplate ?key (Inl err),
          EvLogError ''unable to locate corresponding notification template'']"]) simp
  next
    case (Inr mfn)
    show ?thesis
    proof (cases "isValidAlert h alert True")
      case False
      with Cons.prems gt Inr
      have "processFiring h rest (emit (EvLogInfo ''alert does not meet valid criteria'') ?st1) = (resp, st')"
        by (simp add: Let_def)
      from Cons.IH[OF this] obtain evs where
        evs: "trace st' = trace (emit (EvLogInfo ''alert does not meet valid criteria'') ?st1) @ evs"
          "\<forall>e\<in>set evs. firing_send e"
          "if \<exists>e\<in>set evs. template_failure e
           then resp_Code resp = 500 \<and> resp_Error resp \<noteq> None
           else resp = \<lparr>resp_Error = None, resp_Status = ''ok'', resp_Code = 200\<rparr>"
        by blast
      show ?thesis
        using evs Inr
        by (intro exI[of _ "EvGetTemplate ?key r # EvLogInfo ''alert does not meet valid criteria'' # evs"])
           simp
    next
      case True
      obtain res st2 where pa: "processAlert h alert mfn ?st1 = (res, st2)"
        by (cases "processAlert h alert mfn ?st1") auto
      from processAlert_events[OF pa] obtain evs1 where
        ev1: "trace st2 = trace ?st1 @ evs1" "\<forall>e\<in>set evs1. firing_send e \<and> \<not> is_template_call e"
        by blast
      have nt: "\<not> template_failure e" if "e \<in> set evs1" for e
        using ev1(2) that by (cases e) auto
      then have nt': "\<not> (\<exists>e\<in>set evs1. template_failure e)" by blast
      show ?thesis
      proof (cases res)
        case None
        with Cons.prems gt Inr True pa have "processFiring h rest st2 = (resp, st')"
          by (simp add: Let_def)
        from Cons.IH[OF this] obtain evs where
          evs: "trace st' = trace st2 @ evs"
            "\<forall>e\<in>set evs. firing_send e"
            "if \<exists>e\<in>set evs. template_failure e
             then resp_Code resp = 500 \<and> resp_Error resp \<noteq> None
             else resp = \<lparr>resp_Error = None, resp_Status = ''ok'', resp_Code = 200\<rparr>"
          by blast
        show ?thesis
          using evs ev1 nt' Inr
          by (intro exI[of _ "EvGetTemplate ?key r # evs1 @ evs"]) (auto simp: bex_Un)
      next
        case (Some err)
        with Cons.prems gt Inr True pa
        have "processFiring h rest
                (emit (EvLogError ''a firing alert could not be successfully processed'') st2) = (resp, st')"
          by (simp add: Let_def)
        from Cons.IH[OF this] obtain evs where
          evs: "trace st' = trace (emit (EvLogError ''a firing alert could not be successfully processed'') st2) @ evs"
            "\<forall>e\<in>set evs. firing_send e"
            "if \<exists>e\<in>set evs. template_failure e
             then resp_Code resp = 500 \<and> resp_Error resp \<noteq> None
             else resp = \<lparr>resp_Error = None, resp_Status = ''ok'', resp_Code = 200\<rparr>"
          by blast
        show ?thesis
          using evs ev1 nt' Inr
          by (intro exI[of _ "EvGetTemplate ?key r # evs1 @
                EvLogError ''a firing alert could not be successfully processed'' # evs"])
             (auto simp: bex_Un)
      qed
    qed
  qed
qed

lemma processFiring_append:
  "processFiring h (xs @ ys) st =
     (case processFiring h xs st of
        (r, st1) \<Rightarrow> if resp_Code r = 200 then processFiring h ys st1 else (r, st1))"
  by (induction xs arbitrary: st) (auto simp: Let_def split: prod.splits sum.splits option.splits)




section \<open>Running the reference client\<close>

lemma map_of_upsert: "map_of (upsert k v xs) k' = (if k' = k then Some v else map_of xs k')"
  by (induction xs) auto

lemma ex_labels [simp]:
  "label (ex_alert s t) AMLabelAlertMCID = ''mc''"
  "label (ex_alert s t) AMLabelAlertHCID = ''hc''"
  "label (ex_alert s t) AMLabelTemplateName = t"
  by (simp_all add: label_def ex_alert_def AMLabelAlertMCID_def AMLabelAlertHCID_def AMLabelTemplateName_def)

lemma fake_calls [simp]:
  "c_GetRecord fake_env k w = (case map_of (fk_records w) (snd k) of None \<Rightarrow> Inl NotFound | Some m \<Rightarrow> Inr m, w)"
  "c_GetTemplate fake_env k w = (case map_of (fk_templates w) (snd k) of None \<Rightarrow> Inl NotFound | Some t \<Rightarrow> Inr t, w)"
  "ocm_SendServiceLog fake_env a w = (fk_send w, w)"
  "time_Now fake_env w = fk_now w"
  "isValidAlert fake_env al b = (map_of (Labels al) ''send_managed_notification'' = Some ''true'')"
  by (simp_all add: fake_env_def)

section \<open>The resend window\<close>

text \<open>
  C1. The alert is firing (the handler sees firing alerts only) and the record fetched
  for its management cluster has a status and already holds the item of the
  notification and hosted cluster, with a NotificationSent condition \<open>c\<close>. If the
  time since \<open>c\<close> is less than the resend wait of the entry, \<^verbatim>\<open>processAlert\<close> returns
  no error, its only collaborator call is the fetch, and the in-memory record is the
  fetched one; if the time since \<open>c\<close> is at least the resend wait, the send
  collaborator is called. The resend wait is the one stored in the entry, which
  \<^verbatim>\<open>addNotificationRecordByName\<close> copies from the template.
\<close>

theorem processAlert_within_resend_window:
  assumes mc: "mcID = label alert AMLabelAlertMCID" and hc: "hcID = label alert AMLabelAlertHCID"
    and fn: "fn = Spec_FleetNotification mfn"
    and get: "c_GetRecord h (OCMAgentNamespaceName, mcID) (world st) = (Inr m, w1)"
    and status: "ManagementCluster (Status m) \<noteq> []"
    and entry: "GetNotificationRecordByName m mcID (fn_Name fn) = Inr (InStatus i)"
    and item: "GetNotificationRecordItem m mcID (fn_Name fn) hcID = Inr it"
    and sent: "getCondition (Conditions it) NotificationSent = Some c"
  shows "(time_Now h w1 - lastTransitionTime c < sint (ResendWait (byName m ! i)) \<longrightarrow>
            processAlert_mem h alert mfn st =
              (None, Some m,
               st\<lparr>world := w1,
                  trace := trace st @
                    [EvGetRecord (OCMAgentNamespaceName, mcID) (Inr m),
                     EvLogInfo ''not sending a notification as one was already sent recently'']\<rparr>)) \<and>
         (sint (ResendWait (byName m ! i)) \<le> time_Now h w1 - lastTransitionTime c \<longrightarrow>
            (\<exists>res mo st' r rest. processAlert_mem h alert mfn st = (res, mo, st') \<and>
               new_events st st' =
                 EvGetRecord (OCMAgentNamespaceName, mcID) (Inr m) #
                 EvLogInfo ''will send servicelog for notification'' #
                 EvSend (sendArgs fn hcID) r # rest))"
proof -
  let ?st1 = "emit (EvGetRecord (OCMAgentNamespaceName, mcID) (Inr m)) (st\<lparr>world := w1\<rparr>)"
  have f: "fetchRecord h mcID st = (Inr m, ?st1)"
    using get by (simp add: fetchRecord_def GetRecord_def)
  have e: "ensureInitialStatus h mcID m ?st1 = (None, m, ?st1)"
    using status by (simp add: ensureInitialStatus_def)
  have l: "locateRecordItem h mcID fn hcID m = (None, \<lparr>mfnr = m, nfrbn = None\<rparr>)"
    using entry item by (simp add: locateRecordItem_def)
  from entry have il: "i < length (byName m)"
    by (auto simp: GetNotificationRecordByName_Inr dest: find_index_of_Some)
  have c: "CanBeSent m (time_Now h w1) mcID (fn_Name fn) hcID =
             (sint (ResendWait (byName m ! i)) \<le> time_Now h w1 - lastTransitionTime c, None)"
    using entry item sent il by (simp add: CanBeSent_def deref_def canSend_def)
  have w: "world ?st1 = w1" by simp
  show ?thesis
  proof (intro conjI impI)
    assume "time_Now h w1 - lastTransitionTime c < sint (ResendWait (byName m ! i))"
    then show "processAlert_mem h alert mfn st =
              (None, Some m,
               st\<lparr>world := w1,
                  trace := trace st @
                    [EvGetRecord (OCMAgentNamespaceName, mcID) (Inr m),
                     EvLogInfo ''not sending a notification as one was already sent recently'']\<rparr>)"
      using f e l c
      by (simp add: processAlert_mem_def mc[symmetric] hc[symmetric] fn[symmetric] Let_def emit_def)
  next
    assume due: "sint (ResendWait (byName m ! i)) \<le> time_Now h w1 - lastTransitionTime c"
    obtain res m2 st' where s: "sendAndRecord h fn hcID m ?st1 = (res, m2, st')"
      by (cases "sendAndRecord h fn hcID m ?st1") auto
    have run: "processAlert_mem h alert mfn st = (res, Some m2, st')"
      using f e l c due s
      by (simp add: processAlert_mem_def mc[symmetric] hc[symmetric] fn[symmetric] Let_def)
    from s have "\<exists>r rest. new_events st st' =
                 EvGetRecord (OCMAgentNamespaceName, mcID) (Inr m) #
                 EvLogInfo ''will send servicelog for notification'' #
                 EvSend (sendArgs fn hcID) r # rest"
      by (cases rule: sendAndRecord_cases) (auto simp: new_events_def)
    with run show "\<exists>res mo st' r rest. processAlert_mem h alert mfn st = (res, mo, st') \<and>
               new_events st st' =
                 EvGetRecord (OCMAgentNamespaceName, mcID) (Inr m) #
                 EvLogInfo ''will send servicelog for notification'' #
                 EvSend (sendArgs fn hcID) r # rest"
      by blast
  qed
qed

theorem processAlert_within_resend_window_witness:
  "processAlert_mem fake_env (ex_alert ''firing'' ''t1'') ex_template
       (ex_state [(''mc'', ex_record (Some [ex_item 1 [ex_sent 90]]))] None None) =
     (None, Some (ex_record (Some [ex_item 1 [ex_sent 90]])),
      (ex_state [(''mc'', ex_record (Some [ex_item 1 [ex_sent 90]]))] None None)
        \<lparr>trace := [EvGetRecord (recKey ''mc'') (Inr (ex_record (Some [ex_item 1 [ex_sent 90]]))),
                   EvLogInfo ''not sending a notification as one was already sent recently'']\<rparr>) \<and>
   map is_send (take 3 (new_events (ex_state [(''mc'', ex_record (Some [ex_item 1 [ex_sent 76]]))] None None)
       (snd (snd (processAlert_mem fake_env (ex_alert ''firing'' ''t1'') ex_template
          (ex_state [(''mc'', ex_record (Some [ex_item 1 [ex_sent 76]]))] None None)))))) =
     [False, False, True]"
proof -
  let ?A = "ex_alert ''firing'' ''t1''"
  have pre: "c_GetRecord fake_env (recKey (label ?A AMLabelAlertMCID))
          (world (ex_state [(''mc'', ex_record (Some [ex_item 1 [ex_sent t]]))] None None)) =
        (Inr (ex_record (Some [ex_item 1 [ex_sent t]])),
         world (ex_state [(''mc'', ex_record (Some [ex_item 1 [ex_sent t]]))] None None))"
    "ManagementCluster (Status (ex_record (Some [ex_item 1 [ex_sent t]]))) \<noteq> []"
    "GetNotificationRecordByName (ex_record (Some [ex_item 1 [ex_sent t]])) (label ?A AMLabelAlertMCID)
       (fn_Name (Spec_FleetNotification ex_template)) = Inr (InStatus 0)"
    "GetNotificationRecordItem (ex_record (Some [ex_item 1 [ex_sent t]])) (label ?A AMLabelAlertMCID)
       (fn_Name (Spec_FleetNotification ex_template)) (label ?A AMLabelAlertHCID) = Inr (ex_item 1 [ex_sent t])"
    "getCondition (Conditions (ex_item 1 [ex_sent t])) NotificationSent = Some (ex_sent t)" for t
    by (simp_all add: ex_state_def ex_record_def ex_template_def ex_item_def ex_sent_def
        GetNotificationRecordItem_def GetNotificationRecordByName_def byName_def elems_def deref_def)
  note w90 = processAlert_within_resend_window[OF refl refl refl pre[of 90]]
  note w76 = processAlert_within_resend_window[OF refl refl refl pre[of 76]]
  have vals: "time_Now fake_env (world (ex_state rs None None)) = 100"
    "sint (ResendWait (byName (ex_record its) ! 0)) = 24"
    "lastTransitionTime (ex_sent t) = t" for rs its t
    by (simp_all add: ex_state_def ex_record_def byName_def elems_def ex_sent_def)
  from w90 w76
  show ?thesis
    by (auto simp: vals ex_state_def new_events_def)
qed

section \<open>A template that cannot be fetched\<close>

text \<open>
  C2, as amended. When the lookup of the template of a firing alert fails, after the
  alerts before it were processed, the handler logs the error, stops there and answers
  with code 500, the error and the status text naming the template; the alerts after
  it are not processed (the result does not depend on them).
\<close>

theorem template_failure_aborts_batch:
  assumes "Firing (Alerts d) = pre @ alert # rest"
    and "processFiring h pre (emit (EvLogInfo ''Process alert data'') st) = (r, st1)"
    and "resp_Code r = 200"
    and "c_GetTemplate h (OCMAgentNamespaceName, label alert AMLabelTemplateName) (world st1) = (Inl err, w')"
  shows "processAMReceiver h d st =
     (\<lparr>resp_Error = Some err,
       resp_Status = ''unable to find ManagedFleetNotification '' @ label alert AMLabelTemplateName,
       resp_Code = 500\<rparr>,
      st1\<lparr>world := w',
          trace := trace st1 @
            [EvGetTemplate (OCMAgentNamespaceName, label alert AMLabelTemplateName) (Inl err),
             EvLogError ''unable to locate corresponding notification template'']\<rparr>)"
  using assms
  by (simp add: processAMReceiver_def processFiring_append GetTemplate_def Let_def emit_def)

theorem template_failure_aborts_batch_witness:
  "processAMReceiver fake_env
     (ex_batch [ex_alert ''resolved'' ''t1'', ex_alert ''firing'' ''missing'', ex_alert ''firing'' ''t1''])
     (ex_state [] None None) =
   (\<lparr>resp_Error = Some NotFound,
     resp_Status = ''unable to find ManagedFleetNotification missing'',
     resp_Code = 500\<rparr>,
    (ex_state [] None None)
      \<lparr>trace := [EvLogInfo ''Process alert data'',
                 EvGetTemplate (recKey ''missing'') (Inl NotFound),
                 EvLogError ''unable to locate corresponding notification template'']\<rparr>)"
proof -
  let ?S = "ex_state [] None None"
  have f: "Firing (Alerts (ex_batch [ex_alert ''resolved'' ''t1'', ex_alert ''firing'' ''missing'',
              ex_alert ''firing'' ''t1''])) =
           [] @ ex_alert ''firing'' ''missing'' # [ex_alert ''firing'' ''t1'']"
    by (simp add: Firing_def ex_batch_def ex_alert_def)
  have p: "processFiring fake_env [] (emit (EvLogInfo ''Process alert data'') ?S) =
           (\<lparr>resp_Error = None, resp_Status = ''ok'', resp_Code = 200\<rparr>,
            emit (EvLogInfo ''Process alert data'') ?S)"
    by simp
  have g: "c_GetTemplate fake_env
             (OCMAgentNamespaceName, label (ex_alert ''firing'' ''missing'') AMLabelTemplateName)
             (world (emit (EvLogInfo ''Process alert data'') ?S)) =
           (Inl NotFound, world ?S)"
    by (simp add: ex_state_def)
  from template_failure_aborts_batch[OF f p _ g] show ?thesis
    by (simp add: emit_def ex_state_def)
qed

text \<open>
  The claim as stated fails: in a batch of two firing alerts where the template of
  the first cannot be found, the response is the 500 response and the second alert,
  whose template exists, is never looked at.
\<close>

theorem template_not_found_counterexample:
  "processAMReceiver fake_env
     (ex_batch [ex_alert ''firing'' ''missing'', ex_alert ''firing'' ''t1''])
     (ex_state [(''mc'', ex_record None)] None None) =
   (\<lparr>resp_Error = Some NotFound,
     resp_Status = ''unable to find ManagedFleetNotification missing'',
     resp_Code = 500\<rparr>,
    (ex_state [(''mc'', ex_record None)] None None)
      \<lparr>trace := [EvLogInfo ''Process alert data'',
                 EvGetTemplate (recKey ''missing'') (Inl NotFound),
                 EvLogError ''unable to locate corresponding notification template'']\<rparr>)"
  by code_simp

section \<open>Which alerts are dispatched\<close>




section \<open>A failed send\<close>




section \<open>A failed status update after the send\<close>

text \<open>
  C6. If the send succeeded and a status update of the invocation fails with error
  \<open>e\<close>, \<^verbatim>\<open>processAlert\<close> returns \<open>e\<close>, and the send collaborator was called exactly
  once in the invocation.
\<close>

theorem processAlert_persist_failure:
  assumes "processAlert h alert mfn st = (res, st')"
      and "EvSend a None \<in> set (new_events st st')"
      and "EvStatusUpdate m2 (Some e) \<in> set (new_events st st')"
  shows "res = Some e \<and> length (filter is_send (new_events st st')) = 1"
proof -
  from assms(1) obtain mo where run: "processAlert_mem h alert mfn st = (res, mo, st')"
    by (auto simp: processAlert_eq)
  from run assms(2,3) show ?thesis
    by (cases rule: processAlert_mem_cases)
      (auto elim!: fetchRecord_cases ensureInitialStatus_cases sendAndRecord_cases
        simp: new_events_def)
qed

theorem processAlert_persist_failure_witness:
  "fst (processAlert fake_env (ex_alert ''firing'' ''t1'') ex_template
          (ex_state [(''mc'', ex_record (Some [ex_item 1 [ex_sent 70]]))] None (Some (InternalError ''etcd'')))) =
     Some (InternalError ''etcd'') \<and>
   length (filter is_send
     (new_events (ex_state [(''mc'', ex_record (Some [ex_item 1 [ex_sent 70]]))] None (Some (InternalError ''etcd'')))
        (snd (processAlert fake_env (ex_alert ''firing'' ''t1'') ex_template
          (ex_state [(''mc'', ex_record (Some [ex_item 1 [ex_sent 70]]))] None (Some (InternalError ''etcd''))))))) = 1"
proof -
  define A where "A = ex_alert ''firing'' ''t1''"
  define S where "S = ex_state [(''mc'', ex_record (Some [ex_item 1 [ex_sent 70]]))] None (Some (InternalError ''etcd''))"
  define R where "R = processAlert fake_env A ex_template S"
  define M where "M = the (fst (snd (processAlert_mem fake_env A ex_template S)))"
  have run: "processAlert fake_env A ex_template S = (fst R, snd R)"
    by (simp add: R_def)
  have sent: "EvSend (sendArgs (Spec_FleetNotification ex_template) ''hc'') None \<in> set (new_events S (snd R))"
    unfolding R_def S_def A_def by code_simp
  have upd: "EvStatusUpdate M (Some (InternalError ''etcd'')) \<in> set (new_events S (snd R))"
    unfolding R_def M_def S_def A_def by code_simp
  from processAlert_persist_failure[OF run sent upd] show ?thesis
    unfolding R_def S_def A_def by blast
qed

section \<open>Creating the fleet record\<close>

text \<open>
  C7. When the fetch of the record of the management cluster reports not-found and
  the creation succeeds, the first collaborator calls of \<^verbatim>\<open>processAlert\<close> are the fetch
  and the creation of a record whose status names the management cluster and has no
  entry, followed, when the created object comes back without a status, by the write
  of the initial empty status; the send decision and the send come after them, and
  when that write fails its error is returned and nothing is sent. When the creation
  fails, its error is returned after the fetch, the creation and one log line. When
  the fetch finds the record, the invocation starts with that fetch and never calls
  \<^verbatim>\<open>Create\<close>.
\<close>

theorem fleet_record_created_once:
  assumes "processAlert h alert mfn st = (res, st')"
  shows "(\<forall>w1 m w2.
            c_GetRecord h (recKey (label alert AMLabelAlertMCID)) (world st) = (Inl NotFound, w1) \<longrightarrow>
            c_Create h (initObj (label alert AMLabelAlertMCID)) w1 = (Inr m, w2) \<longrightarrow>
            (\<exists>rest. new_events st st' =
               EvGetRecord (recKey (label alert AMLabelAlertMCID)) (Inl NotFound) #
               EvCreate (initObj (label alert AMLabelAlertMCID)) (Inr m) # rest \<and>
               (ManagementCluster (Status m) = [] \<longrightarrow>
                  (\<exists>r rest'. rest =
                     EvStatusUpdate (initStatus (label alert AMLabelAlertMCID) m) r # rest' \<and>
                     (r \<noteq> None \<longrightarrow> res = r \<and> filter is_send (new_events st st') = []))))) \<and>
         (\<forall>w1 e w2.
            c_GetRecord h (recKey (label alert AMLabelAlertMCID)) (world st) = (Inl NotFound, w1) \<longrightarrow>
            c_Create h (initObj (label alert AMLabelAlertMCID)) w1 = (Inl e, w2) \<longrightarrow>
            res = Some e \<and>
            new_events st st' =
              [EvGetRecord (recKey (label alert AMLabelAlertMCID)) (Inl NotFound),
               EvCreate (initObj (label alert AMLabelAlertMCID)) (Inl e),
               EvLogError ''unable to create managedFleetNotificationRecord'']) \<and>
         (\<forall>m w1.
            c_GetRecord h (recKey (label alert AMLabelAlertMCID)) (world st) = (Inr m, w1) \<longrightarrow>
            (\<exists>rest. new_events st st' =
               EvGetRecord (recKey (label alert AMLabelAlertMCID)) (Inr m) # rest) \<and>
            (\<forall>c r. EvCreate c r \<notin> set (new_events st st')))"
proof -
  from assms obtain mo where run: "processAlert_mem h alert mfn st = (res, mo, st')"
    by (auto simp: processAlert_eq)
  from run show ?thesis
    by (cases rule: processAlert_mem_cases)
      (auto elim!: fetchRecord_cases ensureInitialStatus_cases sendAndRecord_cases
        simp: new_events_def IsNotFound_def)
qed

theorem fleet_record_created_once_witness:
  "(\<exists>r rest.
      new_events (ex_subresource (ex_state [] None None))
        (snd (processAlert fake_env (ex_alert ''firing'' ''t1'') ex_template
               (ex_subresource (ex_state [] None None)))) =
      EvGetRecord (recKey ''mc'') (Inl NotFound) #
      EvCreate (initObj ''mc'')
        (Inr ((initObj ''mc'')\<lparr>Status := \<lparr>ManagementCluster = [], RecordByName = None\<rparr>\<rparr>)) #
      EvStatusUpdate
        (initStatus ''mc'' ((initObj ''mc'')\<lparr>Status := \<lparr>ManagementCluster = [], RecordByName = None\<rparr>\<rparr>)) r #
      rest) \<and>
   (\<forall>c r. EvCreate c r \<notin> set
      (new_events
        (snd (processAlert fake_env (ex_alert ''firing'' ''t1'') ex_template
               (ex_subresource (ex_state [] None None))))
        (snd (processAlert fake_env (ex_alert ''firing'' ''t1'') ex_template
               (snd (processAlert fake_env (ex_alert ''firing'' ''t1'') ex_template
                      (ex_subresource (ex_state [] None None))))))))"
proof -
  define A where "A = ex_alert ''firing'' ''t1''"
  define S0 where "S0 = ex_subresource (ex_state [] None None)"
  define M where "M = (initObj ''mc'')\<lparr>Status := \<lparr>ManagementCluster = [], RecordByName = None\<rparr>\<rparr>"
  define R1 where "R1 = processAlert fake_env A ex_template S0"
  define S1 where "S1 = snd R1"
  define R2 where "R2 = processAlert fake_env A ex_template S1"
  have mc: "label A AMLabelAlertMCID = ''mc''" unfolding A_def by simp
  have run1: "processAlert fake_env A ex_template S0 = (fst R1, S1)"
    by (simp add: R1_def S1_def)
  have g1: "c_GetRecord fake_env (recKey (label A AMLabelAlertMCID)) (world S0) = (Inl NotFound, world S0)"
    unfolding mc S0_def by code_simp
  have cf: "fst (c_Create fake_env (initObj (label A AMLabelAlertMCID)) (world S0)) = Inr M"
    unfolding mc S0_def M_def by code_simp
  then have cr: "c_Create fake_env (initObj (label A AMLabelAlertMCID)) (world S0) =
      (Inr M, snd (c_Create fake_env (initObj (label A AMLabelAlertMCID)) (world S0)))"
    by (metis prod.collapse)
  have ms: "ManagementCluster (Status M) = []" by (simp add: M_def)
  from fleet_record_created_once[OF run1] g1 cr ms
  have first: "\<exists>r rest. new_events S0 S1 =
      EvGetRecord (recKey (label A AMLabelAlertMCID)) (Inl NotFound) #
      EvCreate (initObj (label A AMLabelAlertMCID)) (Inr M) #
      EvStatusUpdate (initStatus (label A AMLabelAlertMCID) M) r # rest"
    by blast
  have run2: "processAlert fake_env A ex_template S1 = (fst R2, snd R2)"
    by (simp add: R2_def)
  have "(case fst (c_GetRecord fake_env (recKey (label A AMLabelAlertMCID)) (world S1)) of
          Inr m \<Rightarrow> True | Inl e \<Rightarrow> False)"
    unfolding mc S1_def R1_def S0_def A_def by code_simp
  then obtain m where "fst (c_GetRecord fake_env (recKey (label A AMLabelAlertMCID)) (world S1)) = Inr m"
    by (auto split: sum.splits)
  then have g2: "c_GetRecord fake_env (recKey (label A AMLabelAlertMCID)) (world S1) =
      (Inr m, snd (c_GetRecord fake_env (recKey (label A AMLabelAlertMCID)) (world S1)))"
    by (metis prod.collapse)
  from fleet_record_created_once[OF run2] g2
  have second: "\<forall>c r. EvCreate c r \<notin> set (new_events S1 (snd R2))"
    by blast
  from first[unfolded mc] second show ?thesis
    unfolding R2_def S1_def R1_def S0_def A_def M_def by blast
qed


section \<open>A conflicting status update\<close>

text \<open>
  C8, as amended. A status update that fails with a conflict is not retried and the
  record is not fetched again: \<^verbatim>\<open>processAlert\<close> returns the conflict error, the
  conflicting update is its last collaborator call (only the error log follows), the
  record is fetched exactly once and the send collaborator is called at most once in
  the invocation.
\<close>

theorem processAlert_conflict_not_retried:
  assumes "processAlert h alert mfn st = (res, st')"
      and "EvStatusUpdate m (Some Conflict) \<in> set (new_events st st')"
  shows "res = Some Conflict \<and>
         (\<exists>pre msg. new_events st st' = pre @ [EvStatusUpdate m (Some Conflict), EvLogError msg]) \<and>
         length (filter is_fetch (new_events st st')) = 1 \<and>
         length (filter is_send (new_events st st')) \<le> 1"
proof -
  from assms(1) obtain mo where run: "processAlert_mem h alert mfn st = (res, mo, st')"
    by (auto simp: processAlert_eq)
  from run assms(2) show ?thesis
    by (cases rule: processAlert_mem_cases)
      (auto elim!: fetchRecord_cases ensureInitialStatus_cases sendAndRecord_cases
        simp: new_events_def)
qed

theorem processAlert_conflict_not_retried_witness:
  "fst (processAlert fake_env (ex_alert ''firing'' ''t1'') ex_template
          (ex_state [(''mc'', ex_record None)] None (Some Conflict))) = Some Conflict \<and>
   length (filter is_fetch
     (new_events (ex_state [(''mc'', ex_record None)] None (Some Conflict))
        (snd (processAlert fake_env (ex_alert ''firing'' ''t1'') ex_template
          (ex_state [(''mc'', ex_record None)] None (Some Conflict)))))) = 1"
proof -
  define A where "A = ex_alert ''firing'' ''t1''"
  define S where "S = ex_state [(''mc'', ex_record None)] None (Some Conflict)"
  define R where "R = processAlert fake_env A ex_template S"
  define M where "M = the (fst (snd (processAlert_mem fake_env A ex_template S)))"
  have run: "processAlert fake_env A ex_template S = (fst R, snd R)"
    by (simp add: R_def)
  have upd: "EvStatusUpdate M (Some Conflict) \<in> set (new_events S (snd R))"
    unfolding R_def M_def S_def A_def by code_simp
  from processAlert_conflict_not_retried[OF run upd] show ?thesis
    unfolding R_def S_def A_def by blast
qed

text \<open>
  The claim as stated fails: when the status update after a successful send is
  answered with a conflict, the invocation returns the conflict; its collaborator calls
  are one fetch, the send and the one update, in this order, so the record is not
  fetched again and the update is not repeated.
\<close>

theorem conflict_counterexample:
  "fst (processAlert fake_env (ex_alert ''firing'' ''t1'') ex_template
          (ex_state [(''mc'', ex_record (Some [ex_item 1 [ex_sent 70]]))] None (Some Conflict))) =
     Some Conflict \<and>
   map is_fetch (filter is_client_call
     (new_events (ex_state [(''mc'', ex_record (Some [ex_item 1 [ex_sent 70]]))] None (Some Conflict))
        (snd (processAlert fake_env (ex_alert ''firing'' ''t1'') ex_template
          (ex_state [(''mc'', ex_record (Some [ex_item 1 [ex_sent 70]]))] None (Some Conflict)))))) =
     [True, False, False] \<and>
   map is_write (filter is_client_call
     (new_events (ex_state [(''mc'', ex_record (Some [ex_item 1 [ex_sent 70]]))] None (Some Conflict))
        (snd (processAlert fake_env (ex_alert ''firing'' ''t1'') ex_template
          (ex_state [(''mc'', ex_record (Some [ex_item 1 [ex_sent 70]]))] None (Some Conflict)))))) =
     [False, False, True]"
  by code_simp

section \<open>The HTTP responses\<close>

text \<open>
  C9. For a request that is not a POST, \<^verbatim>\<open>ServeHTTP\<close> answers 405 with a plain-text
  body and leaves the state as it is. For a POST whose body does not decode, it
  answers 400 with a plain-text body, the world is unchanged and the only effects are
  one log line and the request-failure metric. For a POST whose body decodes, when the
  response can be encoded, it answers with the code of the response of
  \<^verbatim>\<open>processAMReceiver\<close> and a JSON body holding that response; on success, that is
  when no template lookup failed, the response is status ok, code 200 and a null
  error; when a template lookup failed, the code is 500 and the error is set.
\<close>

theorem ServeHTTP_responses:
  "(Method req \<noteq> ''POST'' \<longrightarrow>
      (\<exists>w'. ServeHTTP h new_writer (Some req) st = Some (w', st) \<and>
         w_status w' = Some 405 \<and>
         map_of (w_sent w') ''Content-Type'' = Some ''text/plain; charset=utf-8'' \<and>
         w_body w' = [Text (''Method Not Allowed'' @ [CHR 0x0A])])) \<and>
   (Method req = ''POST'' \<longrightarrow>
      (\<forall>err. json_Decode h (Body req) = Inl err \<longrightarrow>
         (\<exists>w' st'. ServeHTTP h new_writer (Some req) st = Some (w', st') \<and>
            w_status w' = Some 400 \<and>
            map_of (w_sent w') ''Content-Type'' = Some ''text/plain; charset=utf-8'' \<and>
            w_body w' = [Text (''Bad request body'' @ [CHR 0x0A])] \<and>
            world st' = world st \<and>
            new_events st st' =
              [EvLogError ''Failed to process request body'', EvMetric SetRequestMetricFailure])) \<and>
      (\<forall>d resp st1. json_Decode h (Body req) = Inr d \<longrightarrow>
         processAMReceiver h d st = (resp, st1) \<longrightarrow> json_Encode h resp = None \<longrightarrow>
         (\<exists>w' st'. ServeHTTP h new_writer (Some req) st = Some (w', st') \<and>
            w_status w' = Some (resp_Code resp) \<and>
            map_of (w_sent w') ''Content-Type'' = Some ''application/json'' \<and>
            w_body w' = [Json resp] \<and>
            (filter template_failure (new_events st st1) = [] \<longrightarrow>
               resp = \<lparr>resp_Error = None, resp_Status = ''ok'', resp_Code = 200\<rparr>) \<and>
            (filter template_failure (new_events st st1) \<noteq> [] \<longrightarrow>
               resp_Code resp = 500 \<and> resp_Error resp \<noteq> None))))"
proof (intro conjI impI allI)
  assume "Method req \<noteq> ''POST''"
  then show "\<exists>w'. ServeHTTP h new_writer (Some req) st = Some (w', st) \<and>
         w_status w' = Some 405 \<and>
         map_of (w_sent w') ''Content-Type'' = Some ''text/plain; charset=utf-8'' \<and>
         w_body w' = [Text (''Method Not Allowed'' @ [CHR 0x0A])]"
    by (simp add: ServeHTTP_def http_Error_def Write_def WriteHeader_def Header_Set_def Header_Del_def
        new_writer_def Let_def)
next
  fix err
  assume "Method req = ''POST''" "json_Decode h (Body req) = Inl err"
  then show "\<exists>w' st'. ServeHTTP h new_writer (Some req) st = Some (w', st') \<and>
            w_status w' = Some 400 \<and>
            map_of (w_sent w') ''Content-Type'' = Some ''text/plain; charset=utf-8'' \<and>
            w_body w' = [Text (''Bad request body'' @ [CHR 0x0A])] \<and>
            world st' = world st \<and>
            new_events st st' =
              [EvLogError ''Failed to process request body'', EvMetric SetRequestMetricFailure]"
    by (simp add: ServeHTTP_def http_Error_def Write_def WriteHeader_def Header_Set_def Header_Del_def
        new_writer_def Let_def new_events_def)
next
  fix d resp st1
  assume post: "Method req = ''POST''" and dec: "json_Decode h (Body req) = Inr d"
    and run: "processAMReceiver h d st = (resp, st1)" and enc: "json_Encode h resp = None"
  from run have pf: "processFiring h (Firing (Alerts d)) (emit (EvLogInfo ''Process alert data'') st) = (resp, st1)"
    by (simp add: processAMReceiver_def)
  from processFiring_events[OF pf] obtain evs where
    evs: "trace st1 = trace st @ EvLogInfo ''Process alert data'' # evs"
      "if \<exists>e\<in>set evs. template_failure e
       then resp_Code resp = 500 \<and> resp_Error resp \<noteq> None
       else resp = \<lparr>resp_Error = None, resp_Status = ''ok'', resp_Code = 200\<rparr>"
    by auto
  have ok: "filter template_failure (new_events st st1) = [] \<longrightarrow>
               resp = \<lparr>resp_Error = None, resp_Status = ''ok'', resp_Code = 200\<rparr>"
    using evs by (auto simp: new_events_def filter_empty_conv split: if_splits)
  have ko: "filter template_failure (new_events st st1) \<noteq> [] \<longrightarrow>
               resp_Code resp = 500 \<and> resp_Error resp \<noteq> None"
    using evs by (auto simp: new_events_def filter_empty_conv split: if_splits)
  have "ServeHTTP h new_writer (Some req) st =
      Some (Write (Json resp) (WriteHeader (resp_Code resp) (Header_Set ''Content-Type'' ''application/json'' new_writer)),
            emit (EvMetric ResetMetricRequestFailure) st1)"
    using post dec run enc by (simp add: ServeHTTP_def Let_def)
  with ok ko show "\<exists>w' st'. ServeHTTP h new_writer (Some req) st = Some (w', st') \<and>
            w_status w' = Some (resp_Code resp) \<and>
            map_of (w_sent w') ''Content-Type'' = Some ''application/json'' \<and>
            w_body w' = [Json resp] \<and>
            (filter template_failure (new_events st st1) = [] \<longrightarrow>
               resp = \<lparr>resp_Error = None, resp_Status = ''ok'', resp_Code = 200\<rparr>) \<and>
            (filter template_failure (new_events st st1) \<noteq> [] \<longrightarrow>
               resp_Code resp = 500 \<and> resp_Error resp \<noteq> None)"
    by (simp add: Write_def WriteHeader_def Header_Set_def new_writer_def Let_def)
qed

theorem ServeHTTP_responses_witness:
  "(\<exists>w'. ServeHTTP fake_env new_writer (Some \<lparr>Method = ''GET'', Body = []\<rparr>) (ex_state [] None None) =
           Some (w', ex_state [] None None) \<and>
         w_status w' = Some 405 \<and>
         w_body w' = [Text (''Method Not Allowed'' @ [CHR 0x0A])]) \<and>
   (\<exists>w' st'. ServeHTTP fake_env new_writer (Some \<lparr>Method = ''POST'', Body = []\<rparr>) (ex_state [] None None) =
           Some (w', st') \<and>
         w_status w' = Some 400 \<and>
         w_body w' = [Text (''Bad request body'' @ [CHR 0x0A])] \<and>
         world st' = world (ex_state [] None None)) \<and>
   (\<exists>w' st'. ServeHTTP fake_env new_writer (Some \<lparr>Method = ''POST'', Body = ''{}''\<rparr>) (ex_state [] None None) =
           Some (w', st') \<and>
         w_status w' = Some 200 \<and>
         map_of (w_sent w') ''Content-Type'' = Some ''application/json'' \<and>
         w_body w' = [Json \<lparr>resp_Error = None, resp_Status = ''ok'', resp_Code = 200\<rparr>])"
proof -
  define S where "S = ex_state [] None None"
  define ok where "ok = \<lparr>resp_Error = None, resp_Status = ''ok'', resp_Code = 200\<rparr>"
  define d where "d = \<lparr>data_Status = ''{}'', Alerts = []\<rparr>"
  have a: "Method \<lparr>Method = ''GET'', Body = []\<rparr> \<noteq> ''POST''" by simp
  have b: "Method \<lparr>Method = ''POST'', Body = []\<rparr> = ''POST''"
    "json_Decode fake_env (Body \<lparr>Method = ''POST'', Body = []\<rparr>) = Inl (Errorf ''EOF'')"
    by (simp_all add: fake_env_def)
  have c: "Method \<lparr>Method = ''POST'', Body = ''{}''\<rparr> = ''POST''"
    "json_Decode fake_env (Body \<lparr>Method = ''POST'', Body = ''{}''\<rparr>) = Inr d"
    "processAMReceiver fake_env d S = (ok, emit (EvLogInfo ''Process alert data'') S)"
    "json_Encode fake_env ok = None"
    "filter template_failure (new_events S (emit (EvLogInfo ''Process alert data'') S)) = []"
    by (simp_all add: fake_env_def d_def ok_def processAMReceiver_def Firing_def new_events_def)
  from ServeHTTP_responses[of "\<lparr>Method = ''GET'', Body = []\<rparr>" fake_env S] a
  have p1: "\<exists>w'. ServeHTTP fake_env new_writer (Some \<lparr>Method = ''GET'', Body = []\<rparr>) S = Some (w', S) \<and>
         w_status w' = Some 405 \<and>
         w_body w' = [Text (''Method Not Allowed'' @ [CHR 0x0A])]"
    by blast
  from ServeHTTP_responses[of "\<lparr>Method = ''POST'', Body = []\<rparr>" fake_env S] b
  have p2: "\<exists>w' st'. ServeHTTP fake_env new_writer (Some \<lparr>Method = ''POST'', Body = []\<rparr>) S = Some (w', st') \<and>
         w_status w' = Some 400 \<and>
         w_body w' = [Text (''Bad request body'' @ [CHR 0x0A])] \<and>
         world st' = world S"
    by blast
  from ServeHTTP_responses[of "\<lparr>Method = ''POST'', Body = ''{}''\<rparr>" fake_env S] c
  have "\<exists>w' st'. ServeHTTP fake_env new_writer (Some \<lparr>Method = ''POST'', Body = ''{}''\<rparr>) S = Some (w', st') \<and>
         w_status w' = Some (resp_Code ok) \<and>
         map_of (w_sent w') ''Content-Type'' = Some ''application/json'' \<and>
         w_body w' = [Json ok]"
    by blast
  then have p3: "\<exists>w' st'. ServeHTTP fake_env new_writer (Some \<lparr>Method = ''POST'', Body = ''{}''\<rparr>) S = Some (w', st') \<and>
         w_status w' = Some 200 \<and>
         map_of (w_sent w') ''Content-Type'' = Some ''application/json'' \<and>
         w_body w' = [Json ok]"
    by (simp add: ok_def)
  from p1 p2 p3 show ?thesis
    unfolding S_def ok_def by blast
qed

end
